theory Spec2Isabelle
  imports Main "HOL-Library.AList"
begin

section \<open>JavaScript values used by the client\<close>

text \<open>
  An optional string is \<open>None\<close> when the property is \<open>undefined\<close> (or \<open>null\<close>).
  JavaScript treats \<open>undefined\<close>, \<open>null\<close> and the empty string as falsy.
\<close>

definition truthy :: "string option \<Rightarrow> bool" where
  "truthy v = (case v of None \<Rightarrow> False | Some s \<Rightarrow> s \<noteq> [])"

text \<open>The operator \<open>a || b\<close> on optional strings.\<close>

definition js_or :: "string option \<Rightarrow> string option \<Rightarrow> string option" where
  "js_or a b = (if truthy a then a else b)"

text \<open>
  An own property of a payload object: \<open>None\<close> when \<open>hasOwnProperty\<close> is false,
  \<open>Some v\<close> when the property is there, \<open>v\<close> being its value (\<open>None\<close> for a property
  that is present and holds \<open>undefined\<close> or \<open>null\<close>, as in \<open>{id: x, name: undefined}\<close>).
\<close>

type_synonym 'a own = "'a option option"

datatype error = TeamNotFound | BadResponse | ApiError | TypeError

text \<open>
  A call either returns or throws; the mutations done before a throw stay, so both
  carry the state.
\<close>

datatype 's result = Returns 's | Throws error 's

text \<open>An awaited promise of an external collaborator either resolves or rejects.\<close>

datatype 'a outcome = Resolved 'a | Rejected

section \<open>Payloads (structures/team.ts and the uses in structures/client.ts)\<close>

datatype IIconData = IIconData string

record ITeamData =
  td_id :: string
  td_fakeId :: "string own"
  td_name :: "string own"
  td_domain :: "string own"
  td_icon :: "IIconData own"

text \<open>
  The interfaces \<open>IUserData\<close> and \<open>IChannelData\<close> are declared in files that are not
  part of the sources at hand; the fields below are the ones \<open>client.ts\<close> and \<open>team.ts\<close> read.
\<close>

record IUserData =
  ud_id :: "string option"
  ud_bot_id :: "string option"
  ud_team_id :: string
  ud_name :: "string option"

record IChannelData =
  cd_id :: string
  cd_team_id :: "string option"
  cd_shared_team_ids :: "string list option"
  cd_name :: "string option"

record ItemData =
  item_channel :: "string option"

datatype MessageData = MessageData
  (md_subtype: "string option")
  (md_id: "string option")
  (md_bot_id: "string option")
  (md_team_id: string)
  (md_user: "string option")
  (md_channel: "string option")
  (md_item: "ItemData option")
  (md_message: "MessageData option")
  (md_previous_message: "MessageData option")

text \<open>
  \<open>handleMessageEvent\<close> passes the raw event itself to \<open>addUser\<close>; this is the view of
  that object through the interface \<open>IUserData\<close>.
\<close>

definition user_data_of :: "MessageData \<Rightarrow> IUserData" where
  "user_data_of d =
     \<lparr>ud_id = md_id d, ud_bot_id = md_bot_id d, ud_team_id = md_team_id d, ud_name = None\<rparr>"

text \<open>
  \<open>new Message(client, data, teamId, channelId, userId)\<close>: the class is not part of the
  sources at hand, so a message is the tuple of the arguments it was constructed from.
\<close>

datatype Message = Message
  (msg_data: "MessageData option")
  (msg_teamId: string)
  (msg_channelId: "string option")
  (msg_userId: "string option")

section \<open>Entities\<close>

text \<open>
  The classes \<open>User\<close> and \<open>Channel\<close> are not part of the sources at hand. The client
  uses their constructor, \<open>_patch\<close>, the field \<open>id\<close> and, for users, \<open>fullBot\<close>; these
  are parameters of the model. \<open>_clone\<close> is the value itself, as values are immutable here.
\<close>

record 'u User_class =
  User_new :: "IUserData \<Rightarrow> 'u"
  User_patch :: "'u \<Rightarrow> IUserData \<Rightarrow> 'u"
  User_id :: "'u \<Rightarrow> string option"
  User_fullBot :: "'u \<Rightarrow> bool"

record 'c Channel_class =
  Channel_new :: "IChannelData \<Rightarrow> 'c"
  Channel_patch :: "'c \<Rightarrow> IChannelData \<Rightarrow> 'c"
  Channel_id :: "'c \<Rightarrow> string"

text \<open>
  class \<open>Team\<close>. The user map is keyed by \<open>string option\<close> because \<open>addUser\<close> looks up
  \<open>data.id || data.bot_id\<close>, which is \<open>undefined\<close> for a payload with neither. The \<open>bots\<close>
  map is never touched by the code modelled here and is left out.
\<close>

record ('u, 'c) Team =
  t_channels :: "string \<rightharpoonup> 'c"
  t_users :: "string option \<rightharpoonup> 'u"
  t_id :: string
  t_name :: "string option"
  t_domain :: "string option"
  t_email :: "string option"
  t_emailDomain :: "string option"
  t_icon :: "IIconData option"
  t_enterpriseId :: "string option"
  t_enterpriseName :: "string option"
  t_partial :: bool
  t_fakeId :: "string option"

datatype ('u, 'c) event =
    Ev_addTeam "('u, 'c) Team"
  | Ev_changeTeam "('u, 'c) Team" "('u, 'c) Team"
  | Ev_addUser 'u
  | Ev_changeUser 'u 'u
  | Ev_addChannel 'c
  | Ev_changeChannel 'c 'c
  | Ev_message Message
  | Ev_messageChanged Message Message
  | Ev_messageDeleted Message
  | Ev_disconnected

datatype WebClient = WebClient string

datatype RTMClient = RTMClient nat

text \<open>
  Calls to the external collaborators, in the order they are issued. A call whose promise
  has a \<open>then\<close> continuation in the source names that continuation.
\<close>

datatype 'c request =
    Req_team_info string string
  | Req_team_info_then_addUser string IUserData
  | Req_team_info_then_addChannel string IChannelData
  | Req_conversations_list string "string option"
  | Req_users_list string "string option"
  | Req_subscribePresence RTMClient "string option list"
  | Req_join_then_emit 'c
  | Req_rtm_disconnect RTMClient
  | Req_rtm_start RTMClient
  | Req_events_stop

section \<open>class Client\<close>

text \<open>
  The fields of the class, followed by what the class does to its surroundings: the
  events passed to \<open>emit\<close>, the calls issued, the timers handed to \<open>setTimeout\<close>
  (delay in milliseconds and the session the callback restarts) and the sessions of the
  streaming transport that are running.
\<close>

record ('u, 'c) Client =
  tokens :: "string \<rightharpoonup> string"
  teams :: "string \<rightharpoonup> ('u, 'c) Team"
  webMap :: "string \<rightharpoonup> WebClient"
  rtmMap :: "(string \<times> RTMClient) list"
  events :: bool
  startup :: "string set"
  emitted :: "('u, 'c) event list"
  requests :: "'c request list"
  timers :: "(nat \<times> RTMClient) list"
  running :: "RTMClient set"

definition emit :: "('u, 'c) event \<Rightarrow> ('u, 'c) Client \<Rightarrow> ('u, 'c) Client" where
  "emit e st = st\<lparr>emitted := emitted st @ [e]\<rparr>"

definition request :: "'c request \<Rightarrow> ('u, 'c) Client \<Rightarrow> ('u, 'c) Client" where
  "request r st = st\<lparr>requests := requests st @ [r]\<rparr>"

definition web :: "('u, 'c) Client \<Rightarrow> string \<Rightarrow> error + WebClient" where
  "web st teamId = (case webMap st teamId of None \<Rightarrow> Inl TeamNotFound | Some w \<Rightarrow> Inr w)"


subsection \<open>Team._patch and the constructor\<close>

definition Team_patch ::
  "('u, 'c) Client \<Rightarrow> ('u, 'c) Team \<Rightarrow> ITeamData \<Rightarrow> ('u, 'c) Team" where
  "Team_patch st this data =
     (let t0 = this\<lparr>t_id := td_id data\<rparr>;
          t1 = (case td_name data of None \<Rightarrow> t0 | Some v \<Rightarrow> t0\<lparr>t_name := v\<rparr>);
          t2 = (case td_domain data of None \<Rightarrow> t1 | Some v \<Rightarrow> t1\<lparr>t_domain := v\<rparr>);
          t3 = (case td_icon data of None \<Rightarrow> t2 | Some v \<Rightarrow> t2\<lparr>t_icon := v\<rparr>);
          t4 = (case td_fakeId data of None \<Rightarrow> t3 | Some v \<Rightarrow> t3\<lparr>t_fakeId := v\<rparr>)
      in if tokens st (t_id t4) \<noteq> None
         then (if truthy (t_fakeId t4) \<and> \<not> t_partial t4 then t4\<lparr>t_partial := True\<rparr> else t4)
                \<lparr>t_fakeId := None\<rparr>
         else t4)"

text \<open>The field initialisers of the class; \<open>id\<close>, \<open>name\<close> and \<open>domain\<close> have none.\<close>

definition Team_fields :: "string \<Rightarrow> ('u, 'c) Team" where
  "Team_fields i =
     \<lparr>t_channels = Map.empty, t_users = Map.empty, t_id = i, t_name = None, t_domain = None,
      t_email = None, t_emailDomain = None, t_icon = None, t_enterpriseId = None,
      t_enterpriseName = None, t_partial = True, t_fakeId = None\<rparr>"

definition Team_new :: "('u, 'c) Client \<Rightarrow> ITeamData \<Rightarrow> ('u, 'c) Team" where
  "Team_new st data = Team_patch st (Team_fields (td_id data)) data"

subsection \<open>Client.addTeam\<close>

definition addTeam :: "ITeamData \<Rightarrow> ('u, 'c) Client \<Rightarrow> ('u, 'c) Client" where
  "addTeam data st =
     (case teams st (td_id data) of
        Some team \<Rightarrow>
          (let oldTeam = team;
               team' = Team_patch st team data;
               st1 = st\<lparr>teams := (teams st)(td_id data \<mapsto> team')\<rparr>
           in if t_id team' \<notin> startup st then emit (Ev_changeTeam oldTeam team') st1 else st1)
      | None \<Rightarrow>
          (let newTeam = Team_new st data;
               st1 = st\<lparr>teams := (teams st)(t_id newTeam \<mapsto> newTeam)\<rparr>
           in if t_id newTeam \<notin> startup st then emit (Ev_addTeam newTeam) st1 else st1))"

subsection \<open>Client.addUser\<close>

definition addUser ::
  "'u User_class \<Rightarrow> IUserData \<Rightarrow> bool \<Rightarrow> ('u, 'c) Client \<Rightarrow> ('u, 'c) Client result" where
  "addUser U data createTeam st =
     (let userId = js_or (ud_id data) (ud_bot_id data) in
      case teams st (ud_team_id data) of
        Some team \<Rightarrow>
          (case t_users team userId of
             Some user \<Rightarrow>
               (let oldUser = user;
                    user' = User_patch U user data;
                    team' = team\<lparr>t_users := (t_users team)(userId \<mapsto> user')\<rparr>;
                    st1 = st\<lparr>teams := (teams st)(ud_team_id data \<mapsto> team')\<rparr>
                in Returns (if t_id team \<notin> startup st \<and> \<not> User_fullBot U user'
                            then emit (Ev_changeUser oldUser user') st1 else st1))
           | None \<Rightarrow>
               (let newUser = User_new U data;
                    team' = team\<lparr>t_users := (t_users team)(User_id U newUser \<mapsto> newUser)\<rparr>;
                    st1 = st\<lparr>teams := (teams st)(ud_team_id data \<mapsto> team')\<rparr>;
                    st2 = (case map_of (rtmMap st) (t_id team) of
                             Some rtm \<Rightarrow> request (Req_subscribePresence rtm [User_id U newUser]) st1
                           | None \<Rightarrow> st1)
                in Returns (if t_id team \<notin> startup st \<and> \<not> User_fullBot U newUser
                            then emit (Ev_addUser newUser) st2 else st2)))
      | None \<Rightarrow>
          (if createTeam
           then (case web st (ud_team_id data) of
                   Inl e \<Rightarrow> Throws e st
                 | Inr w \<Rightarrow> Returns (request (Req_team_info_then_addUser (ud_team_id data) data) st))
           else Returns st))"

text \<open>The response of \<open>team.info\<close>, as far as the client reads it.\<close>

record TeamInfoResult =
  ti_ok :: bool
  ti_team :: "ITeamData option"

text \<open>The continuation \<open>then((teamData) => ...)\<close> of the request issued by \<open>addUser\<close>.\<close>

definition addUser_then ::
  "'u User_class \<Rightarrow> TeamInfoResult \<Rightarrow> IUserData \<Rightarrow> ('u, 'c) Client \<Rightarrow> ('u, 'c) Client result" where
  "addUser_then U teamData data st =
     (case ti_team teamData of
        Some team \<Rightarrow> addUser U data False (addTeam team st)
      | None \<Rightarrow> Returns st)"

subsection \<open>Client.addChannel\<close>

definition channel_teamId :: "IChannelData \<Rightarrow> string option" where
  "channel_teamId data =
     js_or (cd_team_id data)
       (case cd_shared_team_ids data of
          None \<Rightarrow> None
        | Some ids \<Rightarrow> (case ids of [] \<Rightarrow> None | x # _ \<Rightarrow> Some x))"

definition addChannel ::
  "'c Channel_class \<Rightarrow> IChannelData \<Rightarrow> bool \<Rightarrow> ('u, 'c) Client \<Rightarrow> ('u, 'c) Client result" where
  "addChannel C data createTeam st =
     (case channel_teamId data of
        None \<Rightarrow> Returns st
      | Some teamId \<Rightarrow>
          if teamId = [] then Returns st
          else
            (case teams st teamId of
               Some team \<Rightarrow>
                 (case t_channels team (cd_id data) of
                    Some chan \<Rightarrow>
                      (let oldChan = chan;
                           chan' = Channel_patch C chan data;
                           team' = team\<lparr>t_channels := (t_channels team)(cd_id data \<mapsto> chan')\<rparr>;
                           st1 = st\<lparr>teams := (teams st)(teamId \<mapsto> team')\<rparr>
                       in Returns (if t_id team \<notin> startup st
                                   then emit (Ev_changeChannel oldChan chan') st1 else st1))
                  | None \<Rightarrow>
                      (let newChan = Channel_new C data;
                           team' = team\<lparr>t_channels :=
                                     (t_channels team)(Channel_id C newChan \<mapsto> newChan)\<rparr>;
                           st1 = st\<lparr>teams := (teams st)(teamId \<mapsto> team')\<rparr>
                       in Returns (if t_id team \<notin> startup st
                                   then request (Req_join_then_emit newChan) st1 else st1)))
             | None \<Rightarrow>
                 (if createTeam
                  then (case web st teamId of
                          Inl e \<Rightarrow> Throws e st
                        | Inr w \<Rightarrow>
                            Returns (request (Req_team_info_then_addChannel teamId data) st))
                  else Returns st)))"

text \<open>The continuation of the request issued by \<open>addChannel\<close>.\<close>

definition addChannel_then ::
  "'c Channel_class \<Rightarrow> TeamInfoResult \<Rightarrow> IChannelData \<Rightarrow> ('u, 'c) Client
     \<Rightarrow> ('u, 'c) Client result" where
  "addChannel_then C teamData data st =
     (case ti_team teamData of
        Some team \<Rightarrow> addChannel C data False (addTeam team st)
      | None \<Rightarrow> Returns st)"

text \<open>
  \<open>newChan.join().catch((err) => {}).then(() => emit("addChannel", newChan))\<close>: the
  continuation runs when the join settles, whether it resolved or was rejected.
\<close>

definition join_then_emit ::
  "unit outcome \<Rightarrow> 'c \<Rightarrow> ('u, 'c) Client \<Rightarrow> ('u, 'c) Client" where
  "join_then_emit joined newChan st =
     (case joined of
        Resolved _ \<Rightarrow> emit (Ev_addChannel newChan) st
      | Rejected \<Rightarrow> emit (Ev_addChannel newChan) st)"

subsection \<open>Client.getUser, Client.getChannel\<close>

definition getUser :: "('u, 'c) Client \<Rightarrow> string option \<Rightarrow> string \<Rightarrow> 'u option" where
  "getUser st userId teamId =
     (case teams st teamId of None \<Rightarrow> None | Some team \<Rightarrow> t_users team userId)"

definition getChannel :: "('u, 'c) Client \<Rightarrow> string \<Rightarrow> string \<Rightarrow> 'c option" where
  "getChannel st channelId teamId =
     (case teams st teamId of None \<Rightarrow> None | Some team \<Rightarrow> t_channels team channelId)"

section \<open>Team.load (structures/team.ts)\<close>

text \<open>
  The responses of the request API, as far as \<open>load\<close> reads them. An endpoint is given
  as the list of the outcomes it will deliver, one for each call in turn; a call made when
  the list is used up is never answered, and then \<open>load\<close> does not return (\<open>None\<close>). The
  receiver \<open>this\<close> is the team registered under the key \<open>k\<close>, as in
  \<open>this.teams.get(k).load()\<close>, which is a \<open>TypeError\<close> when there is none. The handlers of
  other events that the scheduler may run while \<open>load\<close> awaits a response are not modelled.
\<close>

record ResponseMetadata =
  next_cursor :: "string option"

record ConversationsListResult =
  cl_ok :: bool
  cl_channels :: "IChannelData list option"
  cl_response_metadata :: "ResponseMetadata option"

record UsersListResult =
  ul_ok :: bool
  ul_members :: "IUserData list option"
  ul_response_metadata :: "ResponseMetadata option"

text \<open>\<open>ret.response_metadata && ret.response_metadata.next_cursor\<close>\<close>

definition cursor_of :: "ResponseMetadata option \<Rightarrow> string option" where
  "cursor_of m = (case m of None \<Rightarrow> None | Some r \<Rightarrow> next_cursor r)"

fun addChannels ::
  "'c Channel_class \<Rightarrow> string \<Rightarrow> IChannelData list \<Rightarrow> ('u, 'c) Client \<Rightarrow> ('u, 'c) Client result" where
  "addChannels C k [] st = Returns st"
| "addChannels C k (channelData # rest) st =
     (case teams st k of
        None \<Rightarrow> Throws TypeError st
      | Some this \<Rightarrow>
          (case addChannel C (channelData\<lparr>cd_team_id := Some (t_id this)\<rparr>) True st of
             Throws e s \<Rightarrow> Throws e s
           | Returns st1 \<Rightarrow> addChannels C k rest st1))"

fun addUsers ::
  "'u User_class \<Rightarrow> IUserData list \<Rightarrow> ('u, 'c) Client \<Rightarrow> ('u, 'c) Client result" where
  "addUsers U [] st = Returns st"
| "addUsers U (userData # rest) st =
     (case addUser U userData True st of
        Throws e s \<Rightarrow> Throws e s
      | Returns st1 \<Rightarrow> addUsers U rest st1)"

fun load_channels ::
  "'c Channel_class \<Rightarrow> string \<Rightarrow> string option \<Rightarrow> ConversationsListResult option outcome list
     \<Rightarrow> ('u, 'c) Client \<Rightarrow> ('u, 'c) Client result option" where
  "load_channels C k cursor [] st =
     (case teams st k of
        None \<Rightarrow> Some (Throws TypeError st)
      | Some this \<Rightarrow>
          (case web st (t_id this) of
             Inl e \<Rightarrow> Some (Throws e st)
           | Inr w \<Rightarrow> None))"
| "load_channels C k cursor (r # rs) st =
     (case teams st k of
        None \<Rightarrow> Some (Throws TypeError st)
      | Some this \<Rightarrow>
          (case web st (t_id this) of
             Inl e \<Rightarrow> Some (Throws e st)
           | Inr w \<Rightarrow>
               (let st1 = request (Req_conversations_list (t_id this) cursor) st in
                case r of
                  Rejected \<Rightarrow> Some (Throws ApiError st1)
                | Resolved None \<Rightarrow> Some (Throws BadResponse st1)
                | Resolved (Some ret) \<Rightarrow>
                    (if \<not> cl_ok ret then Some (Throws BadResponse st1)
                     else
                       (case cl_channels ret of
                          None \<Rightarrow> Some (Throws BadResponse st1)
                        | Some channels \<Rightarrow>
                            (case addChannels C k channels st1 of
                               Throws e s \<Rightarrow> Some (Throws e s)
                             | Returns st2 \<Rightarrow>
                                 (let cursor' = cursor_of (cl_response_metadata ret) in
                                  if truthy cursor' then load_channels C k cursor' rs st2
                                  else Some (Returns st2))))))))"

fun load_users ::
  "'u User_class \<Rightarrow> string \<Rightarrow> string option \<Rightarrow> UsersListResult option outcome list
     \<Rightarrow> ('u, 'c) Client \<Rightarrow> ('u, 'c) Client result option" where
  "load_users U k cursor [] st =
     (case teams st k of
        None \<Rightarrow> Some (Throws TypeError st)
      | Some this \<Rightarrow>
          (case web st (t_id this) of
             Inl e \<Rightarrow> Some (Throws e st)
           | Inr w \<Rightarrow> None))"
| "load_users U k cursor (r # rs) st =
     (case teams st k of
        None \<Rightarrow> Some (Throws TypeError st)
      | Some this \<Rightarrow>
          (case web st (t_id this) of
             Inl e \<Rightarrow> Some (Throws e st)
           | Inr w \<Rightarrow>
               (let st1 = request (Req_users_list (t_id this) cursor) st in
                case r of
                  Rejected \<Rightarrow> Some (Throws ApiError st1)
                | Resolved None \<Rightarrow> Some (Throws BadResponse st1)
                | Resolved (Some ret) \<Rightarrow>
                    (if \<not> ul_ok ret then Some (Throws BadResponse st1)
                     else
                       (case ul_members ret of
                          None \<Rightarrow> Some (Throws BadResponse st1)
                        | Some members \<Rightarrow>
                            (case addUsers U members st1 of
                               Throws e s \<Rightarrow> Some (Throws e s)
                             | Returns st2 \<Rightarrow>
                                 (let cursor' = cursor_of (ul_response_metadata ret) in
                                  if truthy cursor' then load_users U k cursor' rs st2
                                  else Some (Returns st2))))))))"

text \<open>\<open>this.partial = false\<close>\<close>

definition set_loaded :: "string \<Rightarrow> ('u, 'c) Client \<Rightarrow> ('u, 'c) Client" where
  "set_loaded k st =
     (case teams st k of
        None \<Rightarrow> st
      | Some this \<Rightarrow> st\<lparr>teams := (teams st)(k \<mapsto> this\<lparr>t_partial := False\<rparr>)\<rparr>)"

definition load ::
  "'u User_class \<Rightarrow> 'c Channel_class \<Rightarrow> string \<Rightarrow> TeamInfoResult option outcome list
     \<Rightarrow> ConversationsListResult option outcome list \<Rightarrow> UsersListResult option outcome list
     \<Rightarrow> ('u, 'c) Client \<Rightarrow> ('u, 'c) Client result option" where
  "load U C k infos convs usrs st =
     (case teams st k of
        None \<Rightarrow> Some (Throws TypeError st)
      | Some this \<Rightarrow>
          (let webId = (case t_fakeId this of
                         None \<Rightarrow> t_id this
                       | Some f \<Rightarrow> (if f \<noteq> [] then f else t_id this)) in
           case web st webId of
             Inl e \<Rightarrow> Some (Throws e st)
           | Inr w \<Rightarrow>
               (let st1 = request (Req_team_info webId (t_id this)) st in
                case infos of
                  [] \<Rightarrow> None
                | Rejected # _ \<Rightarrow> Some (Throws ApiError st1)
                | Resolved None # _ \<Rightarrow> Some (Throws BadResponse st1)
                | Resolved (Some ret) # _ \<Rightarrow>
                    (if \<not> ti_ok ret then Some (Throws BadResponse st1)
                     else
                       (case ti_team ret of
                          None \<Rightarrow> Some (Throws BadResponse st1)
                        | Some team \<Rightarrow>
                            (let this1 = Team_patch st1 this team;
                                 st2 = st1\<lparr>teams := (teams st1)(k \<mapsto> this1)\<rparr>
                             in if truthy (t_fakeId this1) then Some (Returns (set_loaded k st2))
                                else
                                  (case load_channels C k None convs st2 of
                                     None \<Rightarrow> None
                                   | Some (Throws e s) \<Rightarrow> Some (Throws e s)
                                   | Some (Returns st3) \<Rightarrow>
                                       (case load_users U k None usrs st3 of
                                          None \<Rightarrow> None
                                        | Some (Throws e s) \<Rightarrow> Some (Throws e s)
                                        | Some (Returns st4) \<Rightarrow>
                                            Some (Returns (set_loaded k st4))))))))))"

section \<open>Client.handleMessageEvent\<close>

text \<open>
  One round of the loop over \<open>["message", "previous_message"]\<close>: \<open>sub\<close> is \<open>data[tryKey]\<close>.
\<close>

definition try_key :: "string option \<Rightarrow> MessageData option \<Rightarrow> string option" where
  "try_key userId sub =
     (case sub of
        None \<Rightarrow> userId
      | Some m \<Rightarrow> (if \<not> truthy userId then js_or (md_user m) (md_bot_id m) else userId))"

definition handleMessageEvent ::
  "'u User_class \<Rightarrow> MessageData \<Rightarrow> ('u, 'c) Client \<Rightarrow> ('u, 'c) Client result" where
  "handleMessageEvent U data st =
     (if md_subtype data \<in> {Some ''channel_join'', Some ''channel_name'', Some ''message_replied''}
      then Returns st
      else
        (case (if truthy (md_bot_id data) then addUser U (user_data_of data) True st
               else Returns st) of
           Throws e s \<Rightarrow> Throws e s
         | Returns st1 \<Rightarrow>
             (let teamId = md_team_id data;
                  userId0 = js_or (md_user data) (md_bot_id data)
              in case (if truthy (md_channel data) then Inr (md_channel data)
                       else (case md_item data of
                               None \<Rightarrow> Inl TypeError
                             | Some item \<Rightarrow> Inr (item_channel item))) of
                   Inl e \<Rightarrow> Throws e st1
                 | Inr channelId \<Rightarrow>
                     (let userId = try_key (try_key userId0 (md_message data))
                                     (md_previous_message data)
                      in if md_subtype data = Some ''message_changed''
                         then (let oldMessage = Message (md_previous_message data) teamId
                                                  channelId userId;
                                   newMessage = Message (md_message data) teamId channelId userId
                               in Returns (emit (Ev_messageChanged oldMessage newMessage) st1))
                         else if md_subtype data = Some ''message_deleted''
                         then (let oldMessage = Message (md_previous_message data) teamId
                                                  channelId userId
                               in Returns (emit (Ev_messageDeleted oldMessage) st1))
                         else (let message = Message (Some data) teamId channelId userId
                               in Returns (emit (Ev_message message) st1))))))"

section \<open>Reconnecting and disconnecting\<close>

definition RECONNECT_PAUSE :: nat where
  "RECONNECT_PAUSE = 15000"

text \<open>
  The closure \<open>reconnect\<close> of \<open>addToken\<close>, for the session \<open>rtm\<close>; \<open>disconnected\<close> is
  the outcome of \<open>await rtm.disconnect()\<close>. A session whose \<open>disconnect\<close> resolved is not
  running any more.
\<close>

definition reconnect ::
  "RTMClient \<Rightarrow> unit outcome \<Rightarrow> ('u, 'c) Client \<Rightarrow> ('u, 'c) Client result" where
  "reconnect rtm disconnected st =
     (let st1 = request (Req_rtm_disconnect rtm) st in
      case disconnected of
        Rejected \<Rightarrow> Throws ApiError st1
      | Resolved _ \<Rightarrow>
          Returns (st1\<lparr>running := running st1 - {rtm},
                       timers := timers st1 @ [(RECONNECT_PAUSE, rtm)]\<rparr>))"

text \<open>The handlers \<open>rtm.on("goodbye", ...)\<close> and \<open>rtm.on("disconnected", ...)\<close>.\<close>

definition on_goodbye ::
  "RTMClient \<Rightarrow> unit outcome \<Rightarrow> ('u, 'c) Client \<Rightarrow> ('u, 'c) Client result" where
  "on_goodbye rtm disconnected st = reconnect rtm disconnected st"

definition on_disconnected ::
  "RTMClient \<Rightarrow> unit outcome \<Rightarrow> ('u, 'c) Client \<Rightarrow> ('u, 'c) Client result" where
  "on_disconnected rtm disconnected st = reconnect rtm disconnected st"

text \<open>
  The callback given to \<open>setTimeout\<close>; \<open>started\<close> is the outcome of \<open>await rtm.start()\<close>.
\<close>

definition reconnect_timeout ::
  "RTMClient \<Rightarrow> unit outcome \<Rightarrow> ('u, 'c) Client \<Rightarrow> ('u, 'c) Client" where
  "reconnect_timeout rtm started st =
     (let st1 = request (Req_rtm_start rtm) st in
      case started of
        Resolved _ \<Rightarrow> st1\<lparr>running := insert rtm (running st1)\<rparr>
      | Rejected \<Rightarrow> emit Ev_disconnected st1)"

text \<open>
  The run-time system fires the oldest pending timer (all have the same delay) and runs
  its callback.
\<close>

definition fire_timer :: "unit outcome \<Rightarrow> ('u, 'c) Client \<Rightarrow> ('u, 'c) Client" where
  "fire_timer started st =
     (case timers st of
        [] \<Rightarrow> st
      | (delay, rtm) # rest \<Rightarrow> reconnect_timeout rtm started (st\<lparr>timers := rest\<rparr>))"

text \<open>
  \<open>Client.disconnect\<close>: \<open>env rtm\<close> is the outcome of \<open>await rtm.disconnect()\<close> for
  the session \<open>rtm\<close>, \<open>stopped\<close> that of \<open>await this.events.stop()\<close>.
\<close>

fun disconnect_all ::
  "(RTMClient \<Rightarrow> unit outcome) \<Rightarrow> (string \<times> RTMClient) list \<Rightarrow> ('u, 'c) Client
     \<Rightarrow> ('u, 'c) Client result" where
  "disconnect_all env [] st = Returns st"
| "disconnect_all env ((teamId, rtm) # rest) st =
     (let st1 = request (Req_rtm_disconnect rtm) st in
      case env rtm of
        Rejected \<Rightarrow> Throws ApiError st1
      | Resolved _ \<Rightarrow> disconnect_all env rest (st1\<lparr>running := running st1 - {rtm}\<rparr>))"

definition disconnect ::
  "(RTMClient \<Rightarrow> unit outcome) \<Rightarrow> unit outcome \<Rightarrow> ('u, 'c) Client \<Rightarrow> ('u, 'c) Client result" where
  "disconnect env stopped st =
     (case disconnect_all env (rtmMap st) st of
        Throws e s \<Rightarrow> Throws e s
      | Returns st1 \<Rightarrow>
          (if events st1
           then (let st2 = request Req_events_stop st1 in
                 case stopped of
                   Rejected \<Rightarrow> Throws ApiError st2
                 | Resolved _ \<Rightarrow> Returns st2)
           else Returns st1))"

section \<open>Reading results\<close>

fun state_of :: "'s result \<Rightarrow> 's" where
  "state_of (Returns s) = s"
| "state_of (Throws e s) = s"

fun thrown :: "'s result \<Rightarrow> error option" where
  "thrown (Returns s) = None"
| "thrown (Throws e s) = Some e"

text \<open>The events and calls that a step from \<open>st\<close> to \<open>st'\<close> added.\<close>

definition new_events :: "('u, 'c) Client \<Rightarrow> ('u, 'c) Client \<Rightarrow> ('u, 'c) event list" where
  "new_events st st' = drop (length (emitted st)) (emitted st')"

definition new_requests :: "('u, 'c) Client \<Rightarrow> ('u, 'c) Client \<Rightarrow> 'c request list" where
  "new_requests st st' = drop (length (requests st)) (requests st')"

section \<open>An instance of the entity classes, for the examples\<close>

text \<open>
  Modelled from the spec: the classes \<open>User\<close> and \<open>Channel\<close> (\<open>structures/user.ts\<close>,
  \<open>structures/channel.ts\<close>) are missing. The spec gives a user an id, profile fields and
  a \<open>fullBot\<close> flag "distinguishing synthetic bot-identities from human accounts", and a
  channel an id and a name, both patched like a team. In this instance a user is a full bot
  when its payload carries a bot id and no user id. The theorems below hold for every
  instance; this one only supplies concrete inputs.
\<close>

record SimpleUser =
  su_id :: "string option"
  su_name :: "string option"
  su_fullBot :: bool

record SimpleChannel =
  sc_id :: string
  sc_name :: "string option"

definition simple_users :: "SimpleUser User_class" where
  "simple_users =
     \<lparr>User_new = (\<lambda>d. \<lparr>su_id = js_or (ud_id d) (ud_bot_id d), su_name = ud_name d,
                         su_fullBot = (\<not> truthy (ud_id d) \<and> truthy (ud_bot_id d))\<rparr>),
      User_patch = (\<lambda>u d. u\<lparr>su_id := js_or (ud_id d) (ud_bot_id d),
                              su_name := (case ud_name d of None \<Rightarrow> su_name u | Some n \<Rightarrow> Some n)\<rparr>),
      User_id = su_id,
      User_fullBot = su_fullBot\<rparr>"

definition simple_channels :: "SimpleChannel Channel_class" where
  "simple_channels =
     \<lparr>Channel_new = (\<lambda>d. \<lparr>sc_id = cd_id d, sc_name = cd_name d\<rparr>),
      Channel_patch = (\<lambda>c d. c\<lparr>sc_id := cd_id d,
                                 sc_name := (case cd_name d of None \<Rightarrow> sc_name c | Some n \<Rightarrow> Some n)\<rparr>),
      Channel_id = sc_id\<rparr>"

text \<open>A client with nothing registered, and one with the team \<open>T1\<close> connected.\<close>

definition client0 :: "(SimpleUser, SimpleChannel) Client" where
  "client0 =
     \<lparr>tokens = Map.empty, teams = Map.empty, webMap = Map.empty, rtmMap = [], events = False,
      startup = {}, emitted = [], requests = [], timers = [], running = {}\<rparr>"

definition team1 :: "(SimpleUser, SimpleChannel) Team" where
  "team1 = (Team_fields ''T1'')\<lparr>t_name := Some ''Acme''\<rparr>"

definition client1 :: "(SimpleUser, SimpleChannel) Client" where
  "client1 =
     client0\<lparr>tokens := [''T1'' \<mapsto> ''xoxb-1''], teams := [''T1'' \<mapsto> team1],
             webMap := [''T1'' \<mapsto> WebClient ''xoxb-1''], rtmMap := [(''T1'', RTMClient 1)],
             running := {RTMClient 1}\<rparr>"

definition client_starting :: "(SimpleUser, SimpleChannel) Client" where
  "client_starting = client1\<lparr>startup := {''T1''}\<rparr>"



definition payload_acme :: ITeamData where
  "payload_acme =
     \<lparr>td_id = ''T1'', td_fakeId = None, td_name = Some (Some ''Acme''), td_domain = None,
      td_icon = None\<rparr>"

definition user_alice :: IUserData where
  "user_alice =
     \<lparr>ud_id = Some ''U1'', ud_bot_id = None, ud_team_id = ''T1'', ud_name = Some ''alice''\<rparr>"

definition user_bot :: IUserData where
  "user_bot = \<lparr>ud_id = None, ud_bot_id = Some ''B1'', ud_team_id = ''T1'', ud_name = None\<rparr>"

definition channel_general :: IChannelData where
  "channel_general =
     \<lparr>cd_id = ''C1'', cd_team_id = Some ''T1'', cd_shared_team_ids = None,
      cd_name = Some ''general''\<rparr>"

definition channel_no_team :: IChannelData where
  "channel_no_team =
     \<lparr>cd_id = ''C1'', cd_team_id = None, cd_shared_team_ids = Some [], cd_name = None\<rparr>"

text \<open>The team \<open>T1\<close> after a bot user was added to it.\<close>

definition client_bot :: "(SimpleUser, SimpleChannel) Client" where
  "client_bot = state_of (addUser simple_users user_bot True client1)"

text \<open>A client that holds a web client for \<open>T1\<close> and has not registered the team.\<close>

definition client_web_only :: "(SimpleUser, SimpleChannel) Client" where
  "client_web_only = client0\<lparr>webMap := [''T1'' \<mapsto> WebClient ''xoxb-1'']\<rparr>"



text \<open>The calls that fetch team metadata on behalf of an upsert.\<close>

fun is_fetch :: "'c request \<Rightarrow> bool" where
  "is_fetch (Req_team_info_then_addUser w d) = True"
| "is_fetch (Req_team_info_then_addChannel w d) = True"
| "is_fetch r = False"

text \<open>The events that announce a message.\<close>

fun is_message_event :: "('u, 'c) event \<Rightarrow> bool" where
  "is_message_event (Ev_message m) = True"
| "is_message_event (Ev_messageChanged m m') = True"
| "is_message_event (Ev_messageDeleted m) = True"
| "is_message_event e = False"

text \<open>Message events: an edit by \<open>U1\<close>, a join notice, an edit by the bot \<open>B1\<close> of team \<open>T9\<close>.\<close>

definition msg_inner :: "string \<Rightarrow> MessageData" where
  "msg_inner u = MessageData None None None [] (Some u) None None None None"

definition msg_changed :: MessageData where
  "msg_changed = MessageData (Some ''message_changed'') None None ''T1'' None (Some ''C1'') None
     (Some (msg_inner ''U1'')) (Some (msg_inner ''U1''))"

definition msg_join :: MessageData where
  "msg_join = MessageData (Some ''channel_join'') None None ''T1'' (Some ''U1'') (Some ''C1'') None
     None None"

definition msg_changed_bot :: MessageData where
  "msg_changed_bot = MessageData (Some ''message_changed'') None (Some ''B1'') ''T9'' None
     (Some ''C1'') None (Some (msg_inner ''U1'')) (Some (msg_inner ''U1''))"

text \<open>The client after the session of \<open>T1\<close> signalled \<open>disconnected\<close>.\<close>

definition client_pending :: "(SimpleUser, SimpleChannel) Client" where
  "client_pending = state_of (on_disconnected (RTMClient 1) (Resolved ()) client1)"

text \<open>Two states that differ at most in the list of calls issued.\<close>

definition same_store :: "('u, 'c) Client \<Rightarrow> ('u, 'c) Client \<Rightarrow> bool" where
  "same_store a b =
     (tokens a = tokens b \<and> teams a = teams b \<and> webMap a = webMap b \<and> rtmMap a = rtmMap b
      \<and> events a = events b \<and> startup a = startup b \<and> emitted a = emitted b
      \<and> timers a = timers b \<and> running a = running b)"

text \<open>
  Following the specification ("loop until cursor is empty", "aggregate all result pages"):
  the pages of a paginated list that are read, up to and including the first page whose
  cursor is empty; \<open>cur\<close> reads the cursor of a page. A page \<open>continues\<close> when it is a
  response with a non-empty cursor.
\<close>

fun pages_read :: "('r \<Rightarrow> string option) \<Rightarrow> 'r option outcome list \<Rightarrow> 'r list" where
  "pages_read cur [] = []"
| "pages_read cur (Resolved (Some ret) # rs) =
     ret # (if truthy (cur ret) then pages_read cur rs else [])"
| "pages_read cur (r # rs) = []"

fun continues :: "('r \<Rightarrow> string option) \<Rightarrow> 'r option outcome \<Rightarrow> bool" where
  "continues cur (Resolved (Some ret)) = truthy (cur ret)"
| "continues cur r = False"

definition cl_cursor :: "ConversationsListResult \<Rightarrow> string option" where
  "cl_cursor ret = cursor_of (cl_response_metadata ret)"

definition ul_cursor :: "UsersListResult \<Rightarrow> string option" where
  "ul_cursor ret = cursor_of (ul_response_metadata ret)"

text \<open>The items of the pages, in order.\<close>

definition cl_items :: "ConversationsListResult list \<Rightarrow> IChannelData list" where
  "cl_items pages = concat (map (\<lambda>ret. case cl_channels ret of None \<Rightarrow> [] | Some cs \<Rightarrow> cs) pages)"

definition ul_items :: "UsersListResult list \<Rightarrow> IUserData list" where
  "ul_items pages = concat (map (\<lambda>ret. case ul_members ret of None \<Rightarrow> [] | Some us \<Rightarrow> us) pages)"

fun is_conversations_list :: "'c request \<Rightarrow> bool" where
  "is_conversations_list (Req_conversations_list w c) = True"
| "is_conversations_list r = False"

fun is_users_list :: "'c request \<Rightarrow> bool" where
  "is_users_list (Req_users_list w c) = True"
| "is_users_list r = False"

text \<open>
  The example of the specification: a channel list that returns the cursors \<open>a\<close>, \<open>b\<close> and
  the empty cursor, with one channel on each page; a user list of one page.
\<close>

definition conversations_page :: "string list \<Rightarrow> string \<Rightarrow> ConversationsListResult option outcome" where
  "conversations_page ids c =
     Resolved (Some \<lparr>cl_ok = True,
       cl_channels = Some (map (\<lambda>i. \<lparr>cd_id = i, cd_team_id = None, cd_shared_team_ids = None,
                                     cd_name = None\<rparr>) ids),
       cl_response_metadata = Some \<lparr>next_cursor = Some c\<rparr>\<rparr>)"

definition example_infos :: "TeamInfoResult option outcome list" where
  "example_infos = [Resolved (Some \<lparr>ti_ok = True, ti_team = Some payload_acme\<rparr>)]"

definition example_convs :: "ConversationsListResult option outcome list" where
  "example_convs =
     [conversations_page [''C1''] ''a'', conversations_page [''C2''] ''b'',
      conversations_page [''C3''] '''']"

definition example_usrs :: "UsersListResult option outcome list" where
  "example_usrs =
     [Resolved (Some \<lparr>ul_ok = True, ul_members = Some [user_alice],
        ul_response_metadata = None\<rparr>)]"

definition example_loaded :: "(SimpleUser, SimpleChannel) Client" where
  "example_loaded =
     (case load simple_users simple_channels ''T1'' example_infos example_convs example_usrs
             client_starting of
        Some r \<Rightarrow> state_of r
      | None \<Rightarrow> client0)"

text \<open>
  The team \<open>T1\<close> known only through the placeholder identity \<open>T0\<close>, whose web client
  is registered; no token for \<open>T1\<close>.
\<close>

definition client_placeholder :: "(SimpleUser, SimpleChannel) Client" where
  "client_placeholder =
     client0\<lparr>teams := [''T1'' \<mapsto> team1\<lparr>t_fakeId := Some ''T0''\<rparr>],
             webMap := [''T0'' \<mapsto> WebClient ''xoxb-0'']\<rparr>"

definition example_placeholder_loaded :: "(SimpleUser, SimpleChannel) Client" where
  "example_placeholder_loaded =
     (case load simple_users simple_channels ''T1'' example_infos example_convs example_usrs
             client_placeholder of
        Some r \<Rightarrow> state_of r
      | None \<Rightarrow> client0)"

section \<open>Properties of the patch\<close>

lemma t_id_Team_patch: "t_id (Team_patch st t d) = td_id d"
  by (simp add: Team_patch_def Let_def split: option.splits)

lemma Team_patch_keeps_entities:
  "t_users (Team_patch st t d) = t_users t \<and> t_channels (Team_patch st t d) = t_channels t"
  unfolding Team_patch_def Let_def
  by (cases "td_name d"; cases "td_domain d"; cases "td_icon d"; cases "td_fakeId d"; simp)




section \<open>Upserts during startup\<close>





lemma addTeam_registers:
  "\<exists>t. teams (addTeam d st) (td_id d) = Some t \<and> t_id t = td_id d"
  by (simp add: addTeam_def Let_def emit_def t_id_Team_patch Team_new_def split: option.splits)





lemma join_then_emit_emits:
  "emitted (join_then_emit joined newChan s) = emitted s @ [Ev_addChannel newChan]"
  by (cases joined) (simp_all add: join_then_emit_def emit_def)




section \<open>A channel payload that names no team\<close>

text \<open>
  C10. When the payload has no \<open>team_id\<close> and \<open>shared_team_ids\<close> is absent or empty,
  \<open>addChannel\<close> returns at once: the whole state, with the events emitted and the calls
  issued, is as before, whatever \<open>createTeam\<close> is.
\<close>

theorem addChannel_without_team:
  "cd_team_id data = None \<Longrightarrow>
   cd_shared_team_ids data = None \<or> cd_shared_team_ids data = Some [] \<Longrightarrow>
   addChannel C data createTeam st = Returns st"
  by (auto simp: addChannel_def channel_teamId_def js_or_def truthy_def)

theorem addChannel_without_team_witness:
  "cd_team_id channel_no_team = None
   \<and> (cd_shared_team_ids channel_no_team = None \<or> cd_shared_team_ids channel_no_team = Some [])
   \<and> addChannel simple_channels channel_no_team True client1 = Returns client1
   \<and> addChannel simple_channels channel_no_team False client1 = Returns client1"
  using addChannel_without_team [of channel_no_team simple_channels True client1]
    addChannel_without_team [of channel_no_team simple_channels False client1]
  by (simp add: channel_no_team_def)

section \<open>Upserts outside startup\<close>

lemma addTeam_outside_startup:
  "td_id d \<notin> startup st \<Longrightarrow>
   emitted (addTeam d st) = emitted st @
     [case teams st (td_id d) of
        Some team \<Rightarrow> Ev_changeTeam team (Team_patch st team d)
      | None \<Rightarrow> Ev_addTeam (Team_new st d)]"
  by (simp add: addTeam_def Let_def t_id_Team_patch Team_new_def emit_def split: option.splits)

lemma addUser_outside_startup:
  "teams st (ud_team_id d) = Some team \<Longrightarrow> t_id team \<notin> startup st \<Longrightarrow>
   thrown (addUser U d createTeam st) = None \<and>
   emitted (state_of (addUser U d createTeam st)) = emitted st @
     (case t_users team (js_or (ud_id d) (ud_bot_id d)) of
        Some user \<Rightarrow> (if User_fullBot U (User_patch U user d) then []
                      else [Ev_changeUser user (User_patch U user d)])
      | None \<Rightarrow> (if User_fullBot U (User_new U d) then [] else [Ev_addUser (User_new U d)]))"
  by (simp add: addUser_def Let_def request_def emit_def split: option.splits)

lemma addChannel_outside_startup:
  "channel_teamId d = Some teamId \<Longrightarrow> teamId \<noteq> [] \<Longrightarrow>
   teams st teamId = Some team \<Longrightarrow> t_id team \<notin> startup st \<Longrightarrow>
   thrown (addChannel C d createTeam st) = None \<and>
   emitted (state_of (addChannel C d createTeam st)) = emitted st @
     (case t_channels team (cd_id d) of
        Some chan \<Rightarrow> [Ev_changeChannel chan (Channel_patch C chan d)]
      | None \<Rightarrow> []) \<and>
   requests (state_of (addChannel C d createTeam st)) = requests st @
     (case t_channels team (cd_id d) of
        Some chan \<Rightarrow> []
      | None \<Rightarrow> [Req_join_then_emit (Channel_new C d)])"
  by (simp add: addChannel_def Let_def request_def emit_def split: option.splits)

lemma addUser_full_bot:
  "teams st (ud_team_id d) = Some team \<Longrightarrow>
   User_fullBot U (case t_users team (js_or (ud_id d) (ud_bot_id d)) of
                     Some user \<Rightarrow> User_patch U user d | None \<Rightarrow> User_new U d) \<Longrightarrow>
   thrown (addUser U d createTeam st) = None \<and>
   emitted (state_of (addUser U d createTeam st)) = emitted st"
  by (cases "t_users team (js_or (ud_id d) (ud_bot_id d))")
    (simp_all add: addUser_def Let_def request_def emit_def split: option.splits)

text \<open>
  C2 (as amended). An upsert made while the team's id is not in the startup set, for a team
  that is registered: \<open>addTeam\<close> emits exactly one event, \<open>changeTeam\<close> when the team was
  there and \<open>addTeam\<close> when it was not. \<open>addUser\<close> emits exactly one event, \<open>changeUser\<close> or
  \<open>addUser\<close> in the same way, unless the patched or new user is a full bot, and then it
  emits none. \<open>addChannel\<close> emits exactly one \<open>changeChannel\<close> for a channel that was
  there; for a new channel it emits nothing itself and starts a join, and the continuation
  of the join emits exactly one \<open>addChannel\<close> when the join settles, resolved or rejected.
\<close>

theorem upsert_outside_startup_events:
  "(td_id tdata \<notin> startup st \<longrightarrow>
      emitted (addTeam tdata st) = emitted st @
        [case teams st (td_id tdata) of
           Some team \<Rightarrow> Ev_changeTeam team (Team_patch st team tdata)
         | None \<Rightarrow> Ev_addTeam (Team_new st tdata)])
   \<and> (teams st (ud_team_id udata) = Some uteam \<and> t_id uteam \<notin> startup st \<longrightarrow>
      thrown (addUser U udata ucreate st) = None \<and>
      emitted (state_of (addUser U udata ucreate st)) = emitted st @
        (case t_users uteam (js_or (ud_id udata) (ud_bot_id udata)) of
           Some user \<Rightarrow> (if User_fullBot U (User_patch U user udata) then []
                         else [Ev_changeUser user (User_patch U user udata)])
         | None \<Rightarrow> (if User_fullBot U (User_new U udata) then []
                    else [Ev_addUser (User_new U udata)])))
   \<and> (channel_teamId cdata = Some teamId \<and> teamId \<noteq> [] \<and>
      teams st teamId = Some cteam \<and> t_id cteam \<notin> startup st \<longrightarrow>
      thrown (addChannel C cdata ccreate st) = None \<and>
      emitted (state_of (addChannel C cdata ccreate st)) = emitted st @
        (case t_channels cteam (cd_id cdata) of
           Some chan \<Rightarrow> [Ev_changeChannel chan (Channel_patch C chan cdata)]
         | None \<Rightarrow> []) \<and>
      requests (state_of (addChannel C cdata ccreate st)) = requests st @
        (case t_channels cteam (cd_id cdata) of
           Some chan \<Rightarrow> []
         | None \<Rightarrow> [Req_join_then_emit (Channel_new C cdata)]))
   \<and> emitted (join_then_emit joined newChan s) = emitted s @ [Ev_addChannel newChan]"
  using addTeam_outside_startup [of tdata st] addUser_outside_startup [of st udata uteam U ucreate]
    addChannel_outside_startup [of cdata teamId st cteam C ccreate]
    join_then_emit_emits [of joined newChan s]
  by blast

theorem upsert_outside_startup_events_witness:
  "td_id payload_acme \<notin> startup client1
   \<and> teams client1 (ud_team_id user_alice) = Some team1 \<and> t_id team1 \<notin> startup client1
   \<and> channel_teamId channel_general = Some ''T1'' \<and> ''T1'' \<noteq> []
   \<and> emitted (addTeam payload_acme client1)
       = [Ev_changeTeam team1 (Team_patch client1 team1 payload_acme)]
   \<and> emitted (state_of (addUser simple_users user_alice True client1))
       = [Ev_addUser (User_new simple_users user_alice)]
   \<and> emitted (state_of (addChannel simple_channels channel_general True client1)) = []
   \<and> requests (state_of (addChannel simple_channels channel_general True client1))
       = [Req_join_then_emit (Channel_new simple_channels channel_general)]
   \<and> emitted (join_then_emit Rejected (Channel_new simple_channels channel_general)
        (state_of (addChannel simple_channels channel_general True client1)))
       = [Ev_addChannel (Channel_new simple_channels channel_general)]"
  using upsert_outside_startup_events [where tdata = payload_acme and st = client1
      and udata = user_alice and uteam = team1 and U = simple_users and ucreate = True
      and cdata = channel_general and teamId = "''T1''" and cteam = team1
      and C = simple_channels and ccreate = True and joined = Rejected
      and newChan = "Channel_new simple_channels channel_general"
      and s = "state_of (addChannel simple_channels channel_general True client1)"]
  by (auto simp: payload_acme_def client1_def client0_def team1_def
      Team_fields_def user_alice_def channel_general_def channel_teamId_def js_or_def truthy_def
      simple_users_def simple_channels_def)

text \<open>
  C2 as stated fails: the bot user \<open>B1\<close> is in team \<open>T1\<close>, the team is not starting up,
  and the upsert of \<open>B1\<close> returns with no event emitted.
\<close>

theorem upsert_full_bot_change_counterexample:
  "(\<exists>t. teams client_bot (ud_team_id user_bot) = Some t \<and> t_id t \<notin> startup client_bot
        \<and> t_users t (js_or (ud_id user_bot) (ud_bot_id user_bot)) \<noteq> None)
   \<and> thrown (addUser simple_users user_bot True client_bot) = None
   \<and> emitted (state_of (addUser simple_users user_bot True client_bot)) = emitted client_bot"
  by (simp add: client_bot_def client1_def client0_def team1_def Team_fields_def user_bot_def
      js_or_def truthy_def simple_users_def addUser_def request_def Let_def)

section \<open>Full bots\<close>

text \<open>
  C4 (as amended). The suppression for full bots applies to both paths: an upsert into a
  registered team whose patched user (when the user was there) or new user (when it was
  not) is a full bot emits no event, neither \<open>changeUser\<close> nor \<open>addUser\<close>.
\<close>

theorem full_bot_upserts_emit_nothing:
  "teams st (ud_team_id d) = Some team \<Longrightarrow>
   User_fullBot U (case t_users team (js_or (ud_id d) (ud_bot_id d)) of
                     Some user \<Rightarrow> User_patch U user d | None \<Rightarrow> User_new U d) \<Longrightarrow>
   thrown (addUser U d createTeam st) = None \<and>
   emitted (state_of (addUser U d createTeam st)) = emitted st"
  by (rule addUser_full_bot)

theorem full_bot_upserts_emit_nothing_witness:
  "teams client1 (ud_team_id user_bot) = Some team1
   \<and> User_fullBot simple_users
        (case t_users team1 (js_or (ud_id user_bot) (ud_bot_id user_bot)) of
           Some user \<Rightarrow> User_patch simple_users user user_bot
         | None \<Rightarrow> User_new simple_users user_bot)
   \<and> thrown (addUser simple_users user_bot True client1) = None
   \<and> emitted (state_of (addUser simple_users user_bot True client1)) = emitted client1"
  using full_bot_upserts_emit_nothing [where st = client1 and d = user_bot and team = team1
      and U = simple_users and createTeam = True]
  by (simp add: client1_def client0_def team1_def Team_fields_def user_bot_def js_or_def
      truthy_def simple_users_def)

text \<open>
  C4 as stated fails: \<open>B1\<close> is new in team \<open>T1\<close>, the team is not starting up, the new
  user is a full bot, and no \<open>addUser\<close> event is emitted.
\<close>

theorem new_full_bot_counterexample:
  "teams client1 (ud_team_id user_bot) = Some team1
   \<and> t_users team1 (js_or (ud_id user_bot) (ud_bot_id user_bot)) = None
   \<and> t_id team1 \<notin> startup client1
   \<and> User_fullBot simple_users (User_new simple_users user_bot)
   \<and> thrown (addUser simple_users user_bot True client1) = None
   \<and> emitted (state_of (addUser simple_users user_bot True client1)) = []"
  by (simp add: client1_def client0_def team1_def Team_fields_def user_bot_def js_or_def
      truthy_def simple_users_def addUser_def request_def Let_def)

section \<open>Upserts that name an unknown team\<close>

lemma addUser_unknown_team:
  "teams st (ud_team_id d) = None \<Longrightarrow>
   addUser U d False st = Returns st \<and>
   addUser U d True st =
     (case webMap st (ud_team_id d) of
        None \<Rightarrow> Throws TeamNotFound st
      | Some w \<Rightarrow> Returns (request (Req_team_info_then_addUser (ud_team_id d) d) st))"
  by (simp add: addUser_def web_def split: option.splits)

lemma addChannel_unknown_team:
  "channel_teamId d = Some teamId \<Longrightarrow> teamId \<noteq> [] \<Longrightarrow> teams st teamId = None \<Longrightarrow>
   addChannel C d False st = Returns st \<and>
   addChannel C d True st =
     (case webMap st teamId of
        None \<Rightarrow> Throws TeamNotFound st
      | Some w \<Rightarrow> Returns (request (Req_team_info_then_addChannel teamId d) st))"
  by (simp add: addChannel_def web_def split: option.splits)

lemma addUser_no_fetch:
  "thrown (addUser U d False st) = None \<and>
   filter is_fetch (requests (state_of (addUser U d False st))) = filter is_fetch (requests st)"
  by (simp add: addUser_def Let_def request_def emit_def split: option.splits)

lemma addChannel_no_fetch:
  "thrown (addChannel C d False st) = None \<and>
   filter is_fetch (requests (state_of (addChannel C d False st))) = filter is_fetch (requests st)"
  by (simp add: addChannel_def Let_def request_def emit_def split: option.splits)

text \<open>
  C9 (as amended). \<open>addUser\<close> and \<open>addChannel\<close> for a team id that is not registered:
  with \<open>createTeam\<close> false the call returns the state as it was. With \<open>createTeam\<close> true
  and a web client registered under that id, the call issues one \<open>team.info\<close> request and
  changes nothing else; with no web client under that id it throws "Team not found". The
  continuation of the request, given a response with a team, is \<open>addTeam\<close> followed by the
  same upsert with \<open>createTeam\<close> false; given a response without a team it does nothing.
  An upsert with \<open>createTeam\<close> false never throws and never issues a \<open>team.info\<close>
  request, so there is one retry at most.
\<close>

theorem unknown_team_upsert:
  "(teams st (ud_team_id udata) = None \<longrightarrow>
      addUser U udata False st = Returns st \<and>
      addUser U udata True st =
        (case webMap st (ud_team_id udata) of
           None \<Rightarrow> Throws TeamNotFound st
         | Some w \<Rightarrow> Returns (request (Req_team_info_then_addUser (ud_team_id udata) udata) st)))
   \<and> (channel_teamId cdata = Some teamId \<and> teamId \<noteq> [] \<and> teams st teamId = None \<longrightarrow>
      addChannel C cdata False st = Returns st \<and>
      addChannel C cdata True st =
        (case webMap st teamId of
           None \<Rightarrow> Throws TeamNotFound st
         | Some w \<Rightarrow> Returns (request (Req_team_info_then_addChannel teamId cdata) st)))
   \<and> addUser_then U \<lparr>ti_ok = ok, ti_team = Some team\<rparr> udata s
        = addUser U udata False (addTeam team s)
   \<and> addUser_then U \<lparr>ti_ok = ok, ti_team = None\<rparr> udata s = Returns s
   \<and> addChannel_then C \<lparr>ti_ok = ok, ti_team = Some team\<rparr> cdata s
        = addChannel C cdata False (addTeam team s)
   \<and> addChannel_then C \<lparr>ti_ok = ok, ti_team = None\<rparr> cdata s = Returns s
   \<and> thrown (addUser U udata False s') = None
   \<and> filter is_fetch (requests (state_of (addUser U udata False s')))
        = filter is_fetch (requests s')
   \<and> thrown (addChannel C cdata False s') = None
   \<and> filter is_fetch (requests (state_of (addChannel C cdata False s')))
        = filter is_fetch (requests s')"
  using addUser_unknown_team [of st udata U] addChannel_unknown_team [of cdata teamId st C]
    addUser_no_fetch [of U udata s'] addChannel_no_fetch [of C cdata s']
  by (simp add: addUser_then_def addChannel_then_def)

theorem unknown_team_upsert_witness:
  "teams client_web_only (ud_team_id user_alice) = None
   \<and> channel_teamId channel_general = Some ''T1'' \<and> ''T1'' \<noteq> []
   \<and> teams client_web_only ''T1'' = None
   \<and> addUser simple_users user_alice False client_web_only = Returns client_web_only
   \<and> addUser simple_users user_alice True client_web_only
       = Returns (request (Req_team_info_then_addUser ''T1'' user_alice) client_web_only)
   \<and> addChannel simple_channels channel_general True client_web_only
       = Returns (request (Req_team_info_then_addChannel ''T1'' channel_general) client_web_only)
   \<and> emitted (state_of (addUser_then simple_users \<lparr>ti_ok = True, ti_team = Some payload_acme\<rparr>
        user_alice (request (Req_team_info_then_addUser ''T1'' user_alice) client_web_only)))
       = [Ev_addTeam (Team_new client_web_only payload_acme),
          Ev_addUser (User_new simple_users user_alice)]
   \<and> requests (state_of (addUser_then simple_users \<lparr>ti_ok = True, ti_team = Some payload_acme\<rparr>
        user_alice (request (Req_team_info_then_addUser ''T1'' user_alice) client_web_only)))
       = [Req_team_info_then_addUser ''T1'' user_alice]"
  using unknown_team_upsert [where st = client_web_only and udata = user_alice
      and U = simple_users and cdata = channel_general and teamId = "''T1''"
      and C = simple_channels and ok = True and team = payload_acme
      and s = "request (Req_team_info_then_addUser ''T1'' user_alice) client_web_only"
      and s' = "addTeam payload_acme
                  (request (Req_team_info_then_addUser ''T1'' user_alice) client_web_only)"]
  by (simp add: client_web_only_def client0_def user_alice_def channel_general_def
      channel_teamId_def js_or_def truthy_def payload_acme_def request_def addUser_def
      addTeam_def emit_def Team_new_def Team_patch_def Team_fields_def simple_users_def Let_def)

text \<open>
  C9 as stated fails: nothing is registered, \<open>createTeam\<close> is true, and \<open>addUser\<close> throws
  "Team not found" without a request, a team or a retry.
\<close>

theorem unknown_team_no_web_client_counterexample:
  "teams client0 (ud_team_id user_alice) = None
   \<and> addUser simple_users user_alice True client0 = Throws TeamNotFound client0"
  by (simp add: client0_def user_alice_def addUser_def web_def)

section \<open>Message events\<close>

lemma addUser_emits:
  "\<exists>pre. emitted (state_of (addUser U d createTeam st)) = emitted st @ pre
         \<and> length pre \<le> 1 \<and> filter is_message_event pre = []"
  by (simp add: addUser_def Let_def request_def emit_def web_def split: option.splits sum.splits)

lemma addUser_returns:
  "teams st (ud_team_id d) \<noteq> None \<or> webMap st (ud_team_id d) \<noteq> None \<Longrightarrow>
   thrown (addUser U d True st) = None"
  by (auto simp: addUser_def Let_def web_def split: option.splits)


lemma handle_after_addUser:
  assumes ns: "md_subtype data \<notin> {Some ''channel_join'', Some ''channel_name'', Some ''message_replied''}"
    and step: "(if truthy (md_bot_id data) then addUser U (user_data_of data) True st
               else Returns st) = Returns st1"
    and ch: "truthy (md_channel data) \<or> md_item data \<noteq> None"
  shows "thrown (handleMessageEvent U data st) = None \<and>
     (\<exists>c u. emitted (state_of (handleMessageEvent U data st)) = emitted st1 @
         [if md_subtype data = Some ''message_changed''
          then Ev_messageChanged (Message (md_previous_message data) (md_team_id data) c u)
                 (Message (md_message data) (md_team_id data) c u)
          else if md_subtype data = Some ''message_deleted''
          then Ev_messageDeleted (Message (md_previous_message data) (md_team_id data) c u)
          else Ev_message (Message (Some data) (md_team_id data) c u)])"
proof (cases "truthy (md_channel data)")
  case True
  with ns step show ?thesis
    by (simp add: handleMessageEvent_def Let_def emit_def)
next
  case False
  with ch obtain item where "md_item data = Some item" by auto
  with False ns step show ?thesis
    by (simp add: handleMessageEvent_def Let_def emit_def)
qed

text \<open>
  C5 (as amended). An event whose subtype is \<open>channel_join\<close>, \<open>channel_name\<close> or
  \<open>message_replied\<close> leaves the state as it was, so no event is emitted. Any other event,
  when the handler does not throw (an event with a bot id names a team that is registered
  or has a web client, and the event has a channel id or an \<open>item\<close>), yields exactly one
  message event, the last one emitted: \<open>messageChanged\<close> built from \<open>previous_message\<close>
  and \<open>message\<close> for the subtype \<open>message_changed\<close>, \<open>messageDeleted\<close> built from
  \<open>previous_message\<close> for \<open>message_deleted\<close>, and a plain \<open>message\<close> built from the
  event otherwise. Before it the upsert of the bot may emit at most one event, which is
  not a message event.
\<close>

theorem message_event_classification:
  "(md_subtype data \<in> {Some ''channel_join'', Some ''channel_name'', Some ''message_replied''} \<longrightarrow>
      handleMessageEvent U data st = Returns st)
   \<and> (md_subtype data \<notin> {Some ''channel_join'', Some ''channel_name'', Some ''message_replied''}
       \<and> (truthy (md_bot_id data) \<longrightarrow>
            teams st (md_team_id data) \<noteq> None \<or> webMap st (md_team_id data) \<noteq> None)
       \<and> (truthy (md_channel data) \<or> md_item data \<noteq> None) \<longrightarrow>
      thrown (handleMessageEvent U data st) = None \<and>
      (\<exists>pre c u. emitted (state_of (handleMessageEvent U data st)) = emitted st @ pre @
         [if md_subtype data = Some ''message_changed''
          then Ev_messageChanged (Message (md_previous_message data) (md_team_id data) c u)
                 (Message (md_message data) (md_team_id data) c u)
          else if md_subtype data = Some ''message_deleted''
          then Ev_messageDeleted (Message (md_previous_message data) (md_team_id data) c u)
          else Ev_message (Message (Some data) (md_team_id data) c u)]
         \<and> length pre \<le> 1 \<and> filter is_message_event pre = []))"
proof (intro conjI impI)
  assume "md_subtype data \<in> {Some ''channel_join'', Some ''channel_name'', Some ''message_replied''}"
  then show "handleMessageEvent U data st = Returns st"
    by (simp add: handleMessageEvent_def)
next
  assume a: "md_subtype data \<notin> {Some ''channel_join'', Some ''channel_name'', Some ''message_replied''}
       \<and> (truthy (md_bot_id data) \<longrightarrow>
            teams st (md_team_id data) \<noteq> None \<or> webMap st (md_team_id data) \<noteq> None)
       \<and> (truthy (md_channel data) \<or> md_item data \<noteq> None)"
  let ?step = "if truthy (md_bot_id data) then addUser U (user_data_of data) True st
               else Returns st"
  have ret: "thrown ?step = None"
    using a addUser_returns [of st "user_data_of data" U] by (simp add: user_data_of_def)
  then obtain st1 where st1: "?step = Returns st1"
    by (cases ?step) simp_all
  obtain pre where pre: "emitted st1 = emitted st @ pre" "length pre \<le> 1"
      "filter is_message_event pre = []"
  proof (cases "truthy (md_bot_id data)")
    case True
    obtain p where "emitted (state_of (addUser U (user_data_of data) True st)) = emitted st @ p"
        "length p \<le> 1" "filter is_message_event p = []"
      using addUser_emits [of U "user_data_of data" True st] by blast
    with True st1 that show ?thesis by simp
  next
    case False
    with st1 that [of "[]"] show ?thesis by simp
  qed
  from handle_after_addUser [OF _ st1] a
  have h: "thrown (handleMessageEvent U data st) = None \<and>
     (\<exists>c u. emitted (state_of (handleMessageEvent U data st)) = emitted st1 @
         [if md_subtype data = Some ''message_changed''
          then Ev_messageChanged (Message (md_previous_message data) (md_team_id data) c u)
                 (Message (md_message data) (md_team_id data) c u)
          else if md_subtype data = Some ''message_deleted''
          then Ev_messageDeleted (Message (md_previous_message data) (md_team_id data) c u)
          else Ev_message (Message (Some data) (md_team_id data) c u)])"
    by blast
  then show "thrown (handleMessageEvent U data st) = None" by blast
  from h pre show "\<exists>pre c u. emitted (state_of (handleMessageEvent U data st)) = emitted st @ pre @
         [if md_subtype data = Some ''message_changed''
          then Ev_messageChanged (Message (md_previous_message data) (md_team_id data) c u)
                 (Message (md_message data) (md_team_id data) c u)
          else if md_subtype data = Some ''message_deleted''
          then Ev_messageDeleted (Message (md_previous_message data) (md_team_id data) c u)
          else Ev_message (Message (Some data) (md_team_id data) c u)]
         \<and> length pre \<le> 1 \<and> filter is_message_event pre = []"
    by (metis append.assoc)
qed

theorem message_event_classification_witness:
  "md_subtype msg_join \<in> {Some ''channel_join'', Some ''channel_name'', Some ''message_replied''}
   \<and> handleMessageEvent simple_users msg_join client1 = Returns client1
   \<and> md_subtype msg_changed \<notin> {Some ''channel_join'', Some ''channel_name'', Some ''message_replied''}
   \<and> \<not> truthy (md_bot_id msg_changed) \<and> truthy (md_channel msg_changed)
   \<and> handleMessageEvent simple_users msg_changed client1
       = Returns (emit (Ev_messageChanged
                    (Message (Some (msg_inner ''U1'')) ''T1'' (Some ''C1'') (Some ''U1''))
                    (Message (Some (msg_inner ''U1'')) ''T1'' (Some ''C1'') (Some ''U1''))) client1)"
  using message_event_classification [where data = msg_join and U = simple_users and st = client1]
    message_event_classification [where data = msg_changed and U = simple_users and st = client1]
  by (simp add: msg_join_def msg_changed_def msg_inner_def truthy_def handleMessageEvent_def
      try_key_def js_or_def Let_def)

text \<open>
  C5 as stated fails: an edit carrying the bot id \<open>B1\<close> for the team \<open>T9\<close>, which is not
  registered and has no web client, makes the handler throw "Team not found" before any
  event is emitted.
\<close>

theorem message_changed_unknown_team_counterexample:
  "md_subtype msg_changed_bot = Some ''message_changed''
   \<and> handleMessageEvent simple_users msg_changed_bot client0 = Throws TeamNotFound client0
   \<and> emitted client0 = []"
  by (simp add: msg_changed_bot_def msg_inner_def truthy_def handleMessageEvent_def
      user_data_of_def addUser_def web_def client0_def Let_def)

section \<open>Reconnecting and disconnecting: properties\<close>

lemma reconnect_outcomes:
  "reconnect rtm (Resolved ()) st =
     Returns (st\<lparr>requests := requests st @ [Req_rtm_disconnect rtm],
                 running := running st - {rtm},
                 timers := timers st @ [(15000, rtm)]\<rparr>)
   \<and> reconnect rtm Rejected st =
     Throws ApiError (st\<lparr>requests := requests st @ [Req_rtm_disconnect rtm]\<rparr>)"
  by (simp add: reconnect_def request_def RECONNECT_PAUSE_def)

lemma reconnect_timeout_outcomes:
  "reconnect_timeout rtm (Resolved ()) s =
     s\<lparr>requests := requests s @ [Req_rtm_start rtm], running := insert rtm (running s)\<rparr>
   \<and> reconnect_timeout rtm Rejected s =
     s\<lparr>requests := requests s @ [Req_rtm_start rtm], emitted := emitted s @ [Ev_disconnected]\<rparr>"
  by (simp add: reconnect_timeout_def request_def emit_def)

text \<open>
  C6 (as amended). On \<open>goodbye\<close> or \<open>disconnected\<close> the client asks the session to
  disconnect. When that teardown resolves, the session is not running and exactly one timer
  is added, with a delay of 15000 ms; when it is rejected, the handler throws and no timer
  is added. The timer callback attempts exactly one restart: when the restart resolves the
  session runs again, nothing is emitted and no timer is added; when it fails, one
  \<open>disconnected\<close> event is emitted and no timer is added. From a state without pending
  timers: after the signal one timer is pending, and after it fired none is, whether the
  restart resolved or failed.
\<close>

theorem reconnect_once_after_pause:
  "on_goodbye rtm (Resolved ()) st =
     Returns (st\<lparr>requests := requests st @ [Req_rtm_disconnect rtm],
                 running := running st - {rtm},
                 timers := timers st @ [(15000, rtm)]\<rparr>)
   \<and> on_goodbye rtm Rejected st =
     Throws ApiError (st\<lparr>requests := requests st @ [Req_rtm_disconnect rtm]\<rparr>)
   \<and> on_disconnected rtm torn st = on_goodbye rtm torn st
   \<and> reconnect_timeout rtm (Resolved ()) s =
     s\<lparr>requests := requests s @ [Req_rtm_start rtm], running := insert rtm (running s)\<rparr>
   \<and> reconnect_timeout rtm Rejected s =
     s\<lparr>requests := requests s @ [Req_rtm_start rtm], emitted := emitted s @ [Ev_disconnected]\<rparr>
   \<and> (timers st = [] \<longrightarrow>
        timers (state_of (on_disconnected rtm (Resolved ()) st)) = [(15000, rtm)]
        \<and> fire_timer Rejected (state_of (on_disconnected rtm (Resolved ()) st))
            = st\<lparr>requests := requests st @ [Req_rtm_disconnect rtm, Req_rtm_start rtm],
                  running := running st - {rtm}, timers := [],
                  emitted := emitted st @ [Ev_disconnected]\<rparr>
        \<and> fire_timer (Resolved ()) (state_of (on_disconnected rtm (Resolved ()) st))
            = st\<lparr>requests := requests st @ [Req_rtm_disconnect rtm, Req_rtm_start rtm],
                  running := insert rtm (running st), timers := []\<rparr>
        \<and> timers (state_of (on_disconnected rtm Rejected st)) = [])"
  using reconnect_outcomes [of rtm st] reconnect_timeout_outcomes [of rtm s]
  by (auto simp: on_goodbye_def on_disconnected_def fire_timer_def reconnect_timeout_def
      request_def emit_def)

theorem reconnect_once_after_pause_witness:
  "timers client1 = []
   \<and> timers (state_of (on_disconnected (RTMClient 1) (Resolved ()) client1))
       = [(15000, RTMClient 1)]
   \<and> RTMClient 1 \<notin> running (state_of (on_disconnected (RTMClient 1) (Resolved ()) client1))
   \<and> emitted (fire_timer Rejected (state_of (on_disconnected (RTMClient 1) (Resolved ()) client1)))
       = [Ev_disconnected]
   \<and> timers (fire_timer Rejected (state_of (on_disconnected (RTMClient 1) (Resolved ()) client1)))
       = []
   \<and> requests (fire_timer Rejected (state_of (on_disconnected (RTMClient 1) (Resolved ()) client1)))
       = [Req_rtm_disconnect (RTMClient 1), Req_rtm_start (RTMClient 1)]
   \<and> emitted (fire_timer (Resolved ())
        (state_of (on_disconnected (RTMClient 1) (Resolved ()) client1))) = []
   \<and> requests (fire_timer (Resolved ())
        (state_of (on_disconnected (RTMClient 1) (Resolved ()) client1)))
       = [Req_rtm_disconnect (RTMClient 1), Req_rtm_start (RTMClient 1)]
   \<and> RTMClient 1 \<in> running (fire_timer (Resolved ())
        (state_of (on_disconnected (RTMClient 1) (Resolved ()) client1)))"
  using reconnect_once_after_pause [where rtm = "RTMClient 1" and st = client1]
  by (simp add: client1_def client0_def on_disconnected_def on_goodbye_def reconnect_def
      request_def fire_timer_def reconnect_timeout_def emit_def RECONNECT_PAUSE_def)

text \<open>
  C6 as stated fails: the session signals \<open>disconnected\<close> and its teardown is rejected;
  the handler throws, the session is still running and no restart is scheduled.
\<close>

theorem teardown_rejected_counterexample:
  "on_disconnected (RTMClient 1) Rejected client1
     = Throws ApiError (request (Req_rtm_disconnect (RTMClient 1)) client1)
   \<and> timers (state_of (on_disconnected (RTMClient 1) Rejected client1)) = []
   \<and> RTMClient 1 \<in> running (state_of (on_disconnected (RTMClient 1) Rejected client1))"
  by (simp add: client1_def client0_def on_disconnected_def reconnect_def request_def)

lemma disconnect_all_resolved:
  "\<forall>r \<in> snd ` set m. env r = Resolved () \<Longrightarrow>
   disconnect_all env m st =
     Returns (st\<lparr>requests := requests st @ map (\<lambda>p. Req_rtm_disconnect (snd p)) m,
                 running := running st - snd ` set m\<rparr>)"
proof (induction m arbitrary: st)
  case Nil
  then show ?case by simp
next
  case (Cons p m)
  obtain k r where p: "p = (k, r)" by (cases p)
  from Cons.prems p have r: "env r = Resolved ()" by simp
  from Cons.prems have rest: "\<forall>r \<in> snd ` set m. env r = Resolved ()" by simp
  have "running st - {r} - snd ` set m = running st - insert r (snd ` set m)" by blast
  with Cons.IH [OF rest] p r show ?case
    by (simp add: request_def)
qed

lemma disconnect_all_timers:
  "timers (state_of (disconnect_all env m st)) = timers st
   \<and> emitted (state_of (disconnect_all env m st)) = emitted st"
proof (induction m arbitrary: st)
  case Nil
  then show ?case by simp
next
  case (Cons p m)
  obtain k r where p: "p = (k, r)" by (cases p)
  show ?case
  proof (cases "env r")
    case (Resolved u)
    with p Cons.IH [of "(request (Req_rtm_disconnect r) st)\<lparr>running :=
        running (request (Req_rtm_disconnect r) st) - {r}\<rparr>"]
    show ?thesis by (simp add: request_def Let_def)
  next
    case Rejected
    with p show ?thesis by (simp add: request_def)
  qed
qed

text \<open>
  C7 (as amended). \<open>disconnect\<close> never touches the pending timers. When every teardown
  resolves it returns normally, after disconnecting every session of \<open>rtmMap\<close> in turn
  and then stopping the events adapter if there is one; none of these sessions is running
  when it returns.
\<close>

theorem disconnect_keeps_timers:
  "timers (state_of (disconnect env stopped st)) = timers st
   \<and> ((\<forall>r \<in> snd ` set (rtmMap st). env r = Resolved ()) \<and> stopped = Resolved () \<longrightarrow>
        thrown (disconnect env stopped st) = None
        \<and> running (state_of (disconnect env stopped st)) = running st - snd ` set (rtmMap st)
        \<and> requests (state_of (disconnect env stopped st))
            = requests st @ map (\<lambda>p. Req_rtm_disconnect (snd p)) (rtmMap st)
                @ (if events st then [Req_events_stop] else []))"
proof (intro conjI impI)
  show "timers (state_of (disconnect env stopped st)) = timers st"
    using disconnect_all_timers [of env "rtmMap st" st]
    by (cases "disconnect_all env (rtmMap st) st"; cases stopped)
      (simp_all add: disconnect_def request_def)
next
  assume a: "(\<forall>r \<in> snd ` set (rtmMap st). env r = Resolved ()) \<and> stopped = Resolved ()"
  then have d: "disconnect_all env (rtmMap st) st =
     Returns (st\<lparr>requests := requests st @ map (\<lambda>p. Req_rtm_disconnect (snd p)) (rtmMap st),
                 running := running st - snd ` set (rtmMap st)\<rparr>)"
    using disconnect_all_resolved [of "rtmMap st" env st] by blast
  from a d show "thrown (disconnect env stopped st) = None"
    by (simp add: disconnect_def request_def)
  from a d show "running (state_of (disconnect env stopped st)) = running st - snd ` set (rtmMap st)"
    by (simp add: disconnect_def request_def)
  from a d show "requests (state_of (disconnect env stopped st))
            = requests st @ map (\<lambda>p. Req_rtm_disconnect (snd p)) (rtmMap st)
                @ (if events st then [Req_events_stop] else [])"
    by (simp add: disconnect_def request_def)
qed

theorem disconnect_keeps_timers_witness:
  "rtmMap client_pending = [(''T1'', RTMClient 1)]
   \<and> thrown (disconnect (\<lambda>r. Resolved ()) (Resolved ()) client_pending) = None
   \<and> running (state_of (disconnect (\<lambda>r. Resolved ()) (Resolved ()) client_pending)) = {}
   \<and> timers (state_of (disconnect (\<lambda>r. Resolved ()) (Resolved ()) client_pending))
       = [(15000, RTMClient 1)]"
  using disconnect_keeps_timers [where env = "\<lambda>r. Resolved ()" and stopped = "Resolved ()"
      and st = client_pending]
  by (simp add: client_pending_def client1_def client0_def on_disconnected_def reconnect_def
      request_def RECONNECT_PAUSE_def)

text \<open>
  C7 as stated fails: a timer is pending when \<open>disconnect\<close> is called; \<open>disconnect\<close>
  returns with the session down and the timer still pending, and when the timer fires
  the session is started again.
\<close>

theorem timer_fires_after_disconnect_counterexample:
  "timers client_pending = [(15000, RTMClient 1)]
   \<and> thrown (disconnect (\<lambda>r. Resolved ()) (Resolved ()) client_pending) = None
   \<and> RTMClient 1 \<notin> running (state_of (disconnect (\<lambda>r. Resolved ()) (Resolved ()) client_pending))
   \<and> timers (state_of (disconnect (\<lambda>r. Resolved ()) (Resolved ()) client_pending))
       = [(15000, RTMClient 1)]
   \<and> RTMClient 1 \<in> running (fire_timer (Resolved ())
        (state_of (disconnect (\<lambda>r. Resolved ()) (Resolved ()) client_pending)))"
  by (simp add: client_pending_def client1_def client0_def on_disconnected_def reconnect_def
      request_def RECONNECT_PAUSE_def disconnect_def fire_timer_def reconnect_timeout_def)

section \<open>Draining the paginated lists\<close>

lemma same_store_refl: "same_store a a"
  by (simp add: same_store_def)

lemma same_store_request: "same_store (request r a) a"
  by (simp add: same_store_def request_def)

lemma same_store_sym: "same_store a b \<Longrightarrow> same_store b a"
  by (simp add: same_store_def)

lemma same_store_trans: "same_store a b \<Longrightarrow> same_store b c \<Longrightarrow> same_store a c"
  by (simp add: same_store_def)

lemma addChannel_frame:
  "same_store a b \<Longrightarrow>
   thrown (addChannel C d ct a) = thrown (addChannel C d ct b)
   \<and> same_store (state_of (addChannel C d ct a)) (state_of (addChannel C d ct b))"
  by (simp add: same_store_def addChannel_def Let_def request_def emit_def web_def
      split: option.splits)

lemma addUser_frame:
  "same_store a b \<Longrightarrow>
   thrown (addUser U d ct a) = thrown (addUser U d ct b)
   \<and> same_store (state_of (addUser U d ct a)) (state_of (addUser U d ct b))"
  by (simp add: same_store_def addUser_def Let_def request_def emit_def web_def
      split: option.splits)

lemma addChannel_keeps_ids:
  "map_option t_id (teams (state_of (addChannel C d ct st)) k) = map_option t_id (teams st k)"
  by (simp add: addChannel_def Let_def request_def emit_def web_def split: option.splits)

lemma addUser_keeps_ids:
  "map_option t_id (teams (state_of (addUser U d ct st)) k) = map_option t_id (teams st k)"
  by (simp add: addUser_def Let_def request_def emit_def web_def split: option.splits)

lemma addChannel_list_requests:
  "filter is_conversations_list (requests (state_of (addChannel C d ct st)))
     = filter is_conversations_list (requests st)
   \<and> filter is_users_list (requests (state_of (addChannel C d ct st)))
     = filter is_users_list (requests st)"
  by (simp add: addChannel_def Let_def request_def emit_def web_def split: option.splits)

lemma addUser_list_requests:
  "filter is_conversations_list (requests (state_of (addUser U d ct st)))
     = filter is_conversations_list (requests st)
   \<and> filter is_users_list (requests (state_of (addUser U d ct st)))
     = filter is_users_list (requests st)"
  by (simp add: addUser_def Let_def request_def emit_def web_def split: option.splits)


lemma addChannels_frame:
  "same_store a b \<Longrightarrow>
   thrown (addChannels C k ds a) = thrown (addChannels C k ds b)
   \<and> same_store (state_of (addChannels C k ds a)) (state_of (addChannels C k ds b))"
proof (induction ds arbitrary: a b)
  case Nil
  then show ?case by simp
next
  case (Cons d ds)
  from Cons.prems have tk: "teams a k = teams b k" by (simp add: same_store_def)
  show ?case
  proof (cases "teams b k")
    case None
    with tk Cons.prems show ?thesis by simp
  next
    case (Some this)
    let ?d = "d\<lparr>cd_team_id := Some (t_id this)\<rparr>"
    from addChannel_frame [OF Cons.prems, of C ?d True]
    have f: "thrown (addChannel C ?d True a) = thrown (addChannel C ?d True b)"
      "same_store (state_of (addChannel C ?d True a)) (state_of (addChannel C ?d True b))"
      by simp_all
    show ?thesis
    proof (cases "addChannel C ?d True a")
      case (Returns a1)
      with f obtain b1 where b1: "addChannel C ?d True b = Returns b1" "same_store a1 b1"
        by (cases "addChannel C ?d True b") simp_all
      from Cons.IH [OF b1(2)] Returns b1 Some tk show ?thesis by simp
    next
      case (Throws e a1)
      with f obtain b1 where b1: "addChannel C ?d True b = Throws e b1" "same_store a1 b1"
        by (cases "addChannel C ?d True b") simp_all
      with Throws Some tk show ?thesis by simp
    qed
  qed
qed

lemma addChannels_keeps_ids:
  "map_option t_id (teams (state_of (addChannels C k ds st)) k') = map_option t_id (teams st k')"
proof (induction ds arbitrary: st)
  case Nil
  then show ?case by simp
next
  case (Cons d ds)
  show ?case
  proof (cases "teams st k")
    case None
    then show ?thesis by simp
  next
    case (Some this)
    let ?d = "d\<lparr>cd_team_id := Some (t_id this)\<rparr>"
    show ?thesis
    proof (cases "addChannel C ?d True st")
      case (Returns st1)
      with Cons.IH [of st1] addChannel_keeps_ids [of C ?d True st k'] Some show ?thesis by simp
    next
      case (Throws e st1)
      with addChannel_keeps_ids [of C ?d True st k'] Some show ?thesis by simp
    qed
  qed
qed

lemma addChannels_list_requests:
  "filter is_conversations_list (requests (state_of (addChannels C k ds st)))
     = filter is_conversations_list (requests st)
   \<and> filter is_users_list (requests (state_of (addChannels C k ds st)))
     = filter is_users_list (requests st)"
proof (induction ds arbitrary: st)
  case Nil
  then show ?case by simp
next
  case (Cons d ds)
  show ?case
  proof (cases "teams st k")
    case None
    then show ?thesis by simp
  next
    case (Some this)
    let ?d = "d\<lparr>cd_team_id := Some (t_id this)\<rparr>"
    show ?thesis
    proof (cases "addChannel C ?d True st")
      case (Returns st1)
      with Cons.IH [of st1] addChannel_list_requests [of C ?d True st] Some show ?thesis by simp
    next
      case (Throws e st1)
      with addChannel_list_requests [of C ?d True st] Some show ?thesis by simp
    qed
  qed
qed

lemma addChannels_append:
  "addChannels C k (xs @ ys) st =
     (case addChannels C k xs st of
        Throws e s \<Rightarrow> Throws e s
      | Returns s1 \<Rightarrow> addChannels C k ys s1)"
  by (induction xs arbitrary: st) (simp_all split: option.splits result.splits)

lemma load_channels_Cons_Returns:
  assumes "load_channels C k cursor (r # rs) st = Some (Returns st')"
    and "teams st k = Some this"
  shows "\<exists>ret chans st2. r = Resolved (Some ret) \<and> cl_channels ret = Some chans
    \<and> addChannels C k chans (request (Req_conversations_list (t_id this) cursor) st) = Returns st2
    \<and> (truthy (cl_cursor ret) \<longrightarrow> load_channels C k (cl_cursor ret) rs st2 = Some (Returns st'))
    \<and> (\<not> truthy (cl_cursor ret) \<longrightarrow> st' = st2)"
  using assms
  by (auto simp: Let_def cl_cursor_def split: option.splits sum.splits outcome.splits
      result.splits if_splits)

lemma load_channels_drains:
  "load_channels C k cursor script st = Some (Returns st') \<Longrightarrow> teams st k = Some this \<Longrightarrow>
   pages_read cl_cursor script \<noteq> []
   \<and> \<not> truthy (cl_cursor (last (pages_read cl_cursor script)))
   \<and> thrown (addChannels C k (cl_items (pages_read cl_cursor script)) st) = None
   \<and> same_store st' (state_of (addChannels C k (cl_items (pages_read cl_cursor script)) st))
   \<and> filter is_conversations_list (requests st')
       = filter is_conversations_list (requests st)
         @ map (Req_conversations_list (t_id this))
             (cursor # map cl_cursor (butlast (pages_read cl_cursor script)))
   \<and> filter is_users_list (requests st') = filter is_users_list (requests st)"
proof (induction script arbitrary: cursor st this)
  case Nil
  then show ?case by (simp split: option.splits sum.splits)
next
  case (Cons r rs)
  let ?st1 = "request (Req_conversations_list (t_id this) cursor) st"
  from load_channels_Cons_Returns [OF Cons.prems]
  obtain ret chans st2 where r: "r = Resolved (Some ret)"
    and chans: "cl_channels ret = Some chans"
    and st2: "addChannels C k chans ?st1 = Returns st2"
    and more: "truthy (cl_cursor ret) \<Longrightarrow> load_channels C k (cl_cursor ret) rs st2 = Some (Returns st')"
    and last: "\<not> truthy (cl_cursor ret) \<Longrightarrow> st' = st2"
    by blast
  have fr: "thrown (addChannels C k chans st) = None"
    "same_store st2 (state_of (addChannels C k chans st))"
    using addChannels_frame [OF same_store_request, of C k chans "Req_conversations_list (t_id this) cursor" st] st2
    by simp_all
  then obtain s2 where s2: "addChannels C k chans st = Returns s2" "same_store st2 s2"
    by (cases "addChannels C k chans st") simp_all
  have rq: "filter is_conversations_list (requests st2)
      = filter is_conversations_list (requests st) @ [Req_conversations_list (t_id this) cursor]"
    "filter is_users_list (requests st2) = filter is_users_list (requests st)"
    using addChannels_list_requests [of C k chans ?st1] st2 by (simp_all add: request_def)
  show ?case
  proof (cases "truthy (cl_cursor ret)")
    case False
    with last have "st' = st2" by simp
    with False r chans s2 rq show ?thesis
      by (simp add: cl_items_def)
  next
    case True
    have "map_option t_id (teams st2 k) = map_option t_id (teams ?st1 k)"
      using addChannels_keeps_ids [of C k chans ?st1 k] st2 by simp
    with Cons.prems(2) obtain this2 where this2: "teams st2 k = Some this2" "t_id this2 = t_id this"
      by (auto simp: request_def)
    let ?ps = "pages_read cl_cursor rs"
    from Cons.IH [OF more [OF True] this2(1)] this2(2)
    have ih: "?ps \<noteq> []" "\<not> truthy (cl_cursor (last ?ps))"
      "thrown (addChannels C k (cl_items ?ps) st2) = None"
      "same_store st' (state_of (addChannels C k (cl_items ?ps) st2))"
      "filter is_conversations_list (requests st')
         = filter is_conversations_list (requests st2)
           @ map (Req_conversations_list (t_id this)) (cl_cursor ret # map cl_cursor (butlast ?ps))"
      "filter is_users_list (requests st') = filter is_users_list (requests st2)"
      by simp_all
    from addChannels_frame [OF s2(2), of C k "cl_items ?ps"] ih(3,4)
    have t: "thrown (addChannels C k (cl_items ?ps) s2) = None"
      "same_store st' (state_of (addChannels C k (cl_items ?ps) s2))"
      by (auto intro: same_store_trans)
    have items: "cl_items (pages_read cl_cursor (r # rs)) = chans @ cl_items ?ps"
      using r chans True by (simp add: cl_items_def)
    have pages: "pages_read cl_cursor (r # rs) = ret # ?ps"
      using r True by simp
    have app: "addChannels C k (chans @ cl_items ?ps) st = addChannels C k (cl_items ?ps) s2"
      using s2(1) by (simp add: addChannels_append)
    show ?thesis
      unfolding items app unfolding pages
      using ih(1,2,5,6) t rq by simp
  qed
qed

lemma load_channels_progress:
  "\<not> list_all (continues cl_cursor) script \<Longrightarrow> load_channels C k cursor script st \<noteq> None"
proof (induction script arbitrary: cursor st)
  case Nil
  then show ?case by simp
next
  case (Cons r rs)
  show ?case
  proof (cases "continues cl_cursor r")
    case True
    then obtain ret where r: "r = Resolved (Some ret)" "truthy (cl_cursor ret)"
      by (cases r; cases "case r of Resolved x \<Rightarrow> x | Rejected \<Rightarrow> None") auto
    from True Cons.prems have "\<not> list_all (continues cl_cursor) rs" by simp
    from Cons.IH [OF this] r show ?thesis
      by (simp add: Let_def cl_cursor_def split: option.splits sum.splits result.splits)
  next
    case False
    show ?thesis
    proof (cases r)
      case Rejected
      then show ?thesis by (simp add: Let_def split: option.splits sum.splits)
    next
      case (Resolved x)
      show ?thesis
      proof (cases x)
        case None
        with Resolved show ?thesis by (simp add: Let_def split: option.splits sum.splits)
      next
        case (Some ret)
        with Resolved False have "\<not> truthy (cl_cursor ret)" by simp
        with Resolved Some show ?thesis
          by (simp add: Let_def cl_cursor_def split: option.splits sum.splits result.splits)
      qed
    qed
  qed
qed

lemma addUsers_frame:
  "same_store a b \<Longrightarrow>
   thrown (addUsers U ds a) = thrown (addUsers U ds b)
   \<and> same_store (state_of (addUsers U ds a)) (state_of (addUsers U ds b))"
proof (induction ds arbitrary: a b)
  case Nil
  then show ?case by simp
next
  case (Cons d ds)
  from addUser_frame [OF Cons.prems, of U d True]
  have f: "thrown (addUser U d True a) = thrown (addUser U d True b)"
    "same_store (state_of (addUser U d True a)) (state_of (addUser U d True b))"
    by simp_all
  show ?case
  proof (cases "addUser U d True a")
    case (Returns a1)
    with f obtain b1 where b1: "addUser U d True b = Returns b1" "same_store a1 b1"
      by (cases "addUser U d True b") simp_all
    from Cons.IH [OF b1(2)] Returns b1 show ?thesis by simp
  next
    case (Throws e a1)
    with f obtain b1 where b1: "addUser U d True b = Throws e b1" "same_store a1 b1"
      by (cases "addUser U d True b") simp_all
    with Throws show ?thesis by simp
  qed
qed

lemma addUsers_keeps_ids:
  "map_option t_id (teams (state_of (addUsers U ds st)) k') = map_option t_id (teams st k')"
proof (induction ds arbitrary: st)
  case Nil
  then show ?case by simp
next
  case (Cons d ds)
  show ?case
  proof (cases "addUser U d True st")
    case (Returns st1)
    with Cons.IH [of st1] addUser_keeps_ids [of U d True st k'] show ?thesis by simp
  next
    case (Throws e st1)
    with addUser_keeps_ids [of U d True st k'] show ?thesis by simp
  qed
qed

lemma addUsers_list_requests:
  "filter is_conversations_list (requests (state_of (addUsers U ds st)))
     = filter is_conversations_list (requests st)
   \<and> filter is_users_list (requests (state_of (addUsers U ds st)))
     = filter is_users_list (requests st)"
proof (induction ds arbitrary: st)
  case Nil
  then show ?case by simp
next
  case (Cons d ds)
  show ?case
  proof (cases "addUser U d True st")
    case (Returns st1)
    with Cons.IH [of st1] addUser_list_requests [of U d True st] show ?thesis by simp
  next
    case (Throws e st1)
    with addUser_list_requests [of U d True st] show ?thesis by simp
  qed
qed

lemma addUsers_append:
  "addUsers U (xs @ ys) st =
     (case addUsers U xs st of
        Throws e s \<Rightarrow> Throws e s
      | Returns s1 \<Rightarrow> addUsers U ys s1)"
  by (induction xs arbitrary: st) (simp_all split: result.splits)

lemma load_users_Cons_Returns:
  assumes "load_users U k cursor (r # rs) st = Some (Returns st')"
    and "teams st k = Some this"
  shows "\<exists>ret members st2. r = Resolved (Some ret) \<and> ul_members ret = Some members
    \<and> addUsers U members (request (Req_users_list (t_id this) cursor) st) = Returns st2
    \<and> (truthy (ul_cursor ret) \<longrightarrow> load_users U k (ul_cursor ret) rs st2 = Some (Returns st'))
    \<and> (\<not> truthy (ul_cursor ret) \<longrightarrow> st' = st2)"
  using assms
  by (auto simp: Let_def ul_cursor_def split: option.splits sum.splits outcome.splits
      result.splits if_splits)

lemma load_users_drains:
  "load_users U k cursor script st = Some (Returns st') \<Longrightarrow> teams st k = Some this \<Longrightarrow>
   pages_read ul_cursor script \<noteq> []
   \<and> \<not> truthy (ul_cursor (last (pages_read ul_cursor script)))
   \<and> thrown (addUsers U (ul_items (pages_read ul_cursor script)) st) = None
   \<and> same_store st' (state_of (addUsers U (ul_items (pages_read ul_cursor script)) st))
   \<and> filter is_users_list (requests st')
       = filter is_users_list (requests st)
         @ map (Req_users_list (t_id this))
             (cursor # map ul_cursor (butlast (pages_read ul_cursor script)))
   \<and> filter is_conversations_list (requests st') = filter is_conversations_list (requests st)"
proof (induction script arbitrary: cursor st this)
  case Nil
  then show ?case by (simp split: option.splits sum.splits)
next
  case (Cons r rs)
  let ?st1 = "request (Req_users_list (t_id this) cursor) st"
  from load_users_Cons_Returns [OF Cons.prems]
  obtain ret members st2 where r: "r = Resolved (Some ret)"
    and members: "ul_members ret = Some members"
    and st2: "addUsers U members ?st1 = Returns st2"
    and more: "truthy (ul_cursor ret) \<Longrightarrow> load_users U k (ul_cursor ret) rs st2 = Some (Returns st')"
    and last: "\<not> truthy (ul_cursor ret) \<Longrightarrow> st' = st2"
    by blast
  have fr: "thrown (addUsers U members st) = None"
    "same_store st2 (state_of (addUsers U members st))"
    using addUsers_frame [OF same_store_request, of U members "Req_users_list (t_id this) cursor" st] st2
    by simp_all
  then obtain s2 where s2: "addUsers U members st = Returns s2" "same_store st2 s2"
    by (cases "addUsers U members st") simp_all
  have rq: "filter is_users_list (requests st2)
      = filter is_users_list (requests st) @ [Req_users_list (t_id this) cursor]"
    "filter is_conversations_list (requests st2) = filter is_conversations_list (requests st)"
    using addUsers_list_requests [of U members ?st1] st2 by (simp_all add: request_def)
  show ?case
  proof (cases "truthy (ul_cursor ret)")
    case False
    with last have "st' = st2" by simp
    with False r members s2 rq show ?thesis
      by (simp add: ul_items_def)
  next
    case True
    have "map_option t_id (teams st2 k) = map_option t_id (teams ?st1 k)"
      using addUsers_keeps_ids [of U members ?st1 k] st2 by simp
    with Cons.prems(2) obtain this2 where this2: "teams st2 k = Some this2" "t_id this2 = t_id this"
      by (auto simp: request_def)
    let ?ps = "pages_read ul_cursor rs"
    from Cons.IH [OF more [OF True] this2(1)] this2(2)
    have ih: "?ps \<noteq> []" "\<not> truthy (ul_cursor (last ?ps))"
      "thrown (addUsers U (ul_items ?ps) st2) = None"
      "same_store st' (state_of (addUsers U (ul_items ?ps) st2))"
      "filter is_users_list (requests st')
         = filter is_users_list (requests st2)
           @ map (Req_users_list (t_id this)) (ul_cursor ret # map ul_cursor (butlast ?ps))"
      "filter is_conversations_list (requests st') = filter is_conversations_list (requests st2)"
      by simp_all
    from addUsers_frame [OF s2(2), of U "ul_items ?ps"] ih(3,4)
    have t: "thrown (addUsers U (ul_items ?ps) s2) = None"
      "same_store st' (state_of (addUsers U (ul_items ?ps) s2))"
      by (auto intro: same_store_trans)
    have items: "ul_items (pages_read ul_cursor (r # rs)) = members @ ul_items ?ps"
      using r members True by (simp add: ul_items_def)
    have pages: "pages_read ul_cursor (r # rs) = ret # ?ps"
      using r True by simp
    have app: "addUsers U (members @ ul_items ?ps) st = addUsers U (ul_items ?ps) s2"
      using s2(1) by (simp add: addUsers_append)
    show ?thesis
      unfolding items app unfolding pages
      using ih(1,2,5,6) t rq by simp
  qed
qed

lemma load_users_progress:
  "\<not> list_all (continues ul_cursor) script \<Longrightarrow> load_users U k cursor script st \<noteq> None"
proof (induction script arbitrary: cursor st)
  case Nil
  then show ?case by simp
next
  case (Cons r rs)
  show ?case
  proof (cases "continues ul_cursor r")
    case True
    then obtain ret where r: "r = Resolved (Some ret)" "truthy (ul_cursor ret)"
      by (cases r; cases "case r of Resolved x \<Rightarrow> x | Rejected \<Rightarrow> None") auto
    from True Cons.prems have "\<not> list_all (continues ul_cursor) rs" by simp
    from Cons.IH [OF this] r show ?thesis
      by (simp add: Let_def ul_cursor_def split: option.splits sum.splits result.splits)
  next
    case False
    show ?thesis
    proof (cases r)
      case Rejected
      then show ?thesis by (simp add: Let_def split: option.splits sum.splits)
    next
      case (Resolved x)
      show ?thesis
      proof (cases x)
        case None
        with Resolved show ?thesis by (simp add: Let_def split: option.splits sum.splits)
      next
        case (Some ret)
        with Resolved False have "\<not> truthy (ul_cursor ret)" by simp
        with Resolved Some show ?thesis
          by (simp add: Let_def ul_cursor_def split: option.splits sum.splits result.splits)
      qed
    qed
  qed
qed

lemma Team_patch_tokens: "tokens a = tokens b \<Longrightarrow> Team_patch a t d = Team_patch b t d"
  by (simp add: Team_patch_def)

lemma same_store_set_loaded:
  "same_store a b \<Longrightarrow> same_store (set_loaded k a) (set_loaded k b)"
  by (simp add: same_store_def set_loaded_def split: option.splits)

lemma requests_set_loaded: "requests (set_loaded k a) = requests a"
  by (simp add: set_loaded_def split: option.splits)

lemma Team_patch_requests [simp]:
  "Team_patch (st\<lparr>requests := r\<rparr>) t d = Team_patch st t d"
  by (simp add: Team_patch_def)

lemma load_Returns:
  assumes "load U C k infos convs usrs st = Some (Returns st')"
    and "teams st k = Some this"
  shows "\<exists>ret more team st2. infos = Resolved (Some ret) # more \<and> ti_team ret = Some team
    \<and> same_store st2 (st\<lparr>teams := (teams st)(k \<mapsto> Team_patch st this team)\<rparr>)
    \<and> filter is_conversations_list (requests st2) = filter is_conversations_list (requests st)
    \<and> filter is_users_list (requests st2) = filter is_users_list (requests st)
    \<and> (truthy (t_fakeId (Team_patch st this team)) \<longrightarrow> st' = set_loaded k st2)
    \<and> (\<not> truthy (t_fakeId (Team_patch st this team)) \<longrightarrow>
          (\<exists>st3 st4.
             load_channels C k None convs st2 = Some (Returns st3)
             \<and> load_users U k None usrs st3 = Some (Returns st4)
             \<and> st' = set_loaded k st4))"
proof -
  define webId where "webId = (case t_fakeId this of None \<Rightarrow> t_id this
                       | Some f \<Rightarrow> (if f \<noteq> [] then f else t_id this))"
  define st1 where "st1 = request (Req_team_info webId (t_id this)) st"
  have l: "load U C k infos convs usrs st =
    (case web st webId of
             Inl e \<Rightarrow> Some (Throws e st)
           | Inr w \<Rightarrow>
               (case infos of
                  [] \<Rightarrow> None
                | Rejected # _ \<Rightarrow> Some (Throws ApiError st1)
                | Resolved None # _ \<Rightarrow> Some (Throws BadResponse st1)
                | Resolved (Some ret) # _ \<Rightarrow>
                    (if \<not> ti_ok ret then Some (Throws BadResponse st1)
                     else
                       (case ti_team ret of
                          None \<Rightarrow> Some (Throws BadResponse st1)
                        | Some team \<Rightarrow>
                            (if truthy (t_fakeId (Team_patch st1 this team))
                             then Some (Returns (set_loaded k
                                    (st1\<lparr>teams := (teams st1)(k \<mapsto> Team_patch st1 this team)\<rparr>)))
                             else
                                  (case load_channels C k None convs
                                     (st1\<lparr>teams := (teams st1)(k \<mapsto> Team_patch st1 this team)\<rparr>) of
                                     None \<Rightarrow> None
                                   | Some (Throws e s) \<Rightarrow> Some (Throws e s)
                                   | Some (Returns st3) \<Rightarrow>
                                       (case load_users U k None usrs st3 of
                                          None \<Rightarrow> None
                                        | Some (Throws e s) \<Rightarrow> Some (Throws e s)
                                        | Some (Returns st4) \<Rightarrow>
                                            Some (Returns (set_loaded k st4)))))))))"
    using assms(2) unfolding load_def Let_def webId_def st1_def
    by simp
  from assms(1) obtain ret more team where i: "infos = Resolved (Some ret) # more"
    "ti_team ret = Some team"
    and rest: "(if truthy (t_fakeId (Team_patch st1 this team))
                             then Some (Returns (set_loaded k
                                    (st1\<lparr>teams := (teams st1)(k \<mapsto> Team_patch st1 this team)\<rparr>)))
                             else
                                  (case load_channels C k None convs
                                     (st1\<lparr>teams := (teams st1)(k \<mapsto> Team_patch st1 this team)\<rparr>) of
                                     None \<Rightarrow> None
                                   | Some (Throws e s) \<Rightarrow> Some (Throws e s)
                                   | Some (Returns st3) \<Rightarrow>
                                       (case load_users U k None usrs st3 of
                                          None \<Rightarrow> None
                                        | Some (Throws e s) \<Rightarrow> Some (Throws e s)
                                        | Some (Returns st4) \<Rightarrow>
                                            Some (Returns (set_loaded k st4)))))
        = Some (Returns st')"
    unfolding l
    by (auto split: sum.splits list.splits outcome.splits option.splits if_splits)
  have tp: "Team_patch st1 this team = Team_patch st this team"
    by (simp add: st1_def request_def)
  let ?st2 = "st1\<lparr>teams := (teams st1)(k \<mapsto> Team_patch st this team)\<rparr>"
  have a: "same_store ?st2 (st\<lparr>teams := (teams st)(k \<mapsto> Team_patch st this team)\<rparr>)"
    "filter is_conversations_list (requests ?st2) = filter is_conversations_list (requests st)"
    "filter is_users_list (requests ?st2) = filter is_users_list (requests st)"
    by (simp_all add: same_store_def st1_def request_def)
  have b: "truthy (t_fakeId (Team_patch st this team)) \<longrightarrow> st' = set_loaded k ?st2"
    using rest unfolding tp by (simp split: if_splits)
  have c: "\<not> truthy (t_fakeId (Team_patch st this team)) \<longrightarrow>
          (\<exists>st3 st4.
             load_channels C k None convs ?st2 = Some (Returns st3)
             \<and> load_users U k None usrs st3 = Some (Returns st4)
             \<and> st' = set_loaded k st4)"
    using rest unfolding tp by (auto split: option.splits result.splits if_splits)
  from i a b c show ?thesis by blast
qed

lemma load_progress:
  assumes "infos \<noteq> []" and "\<not> list_all (continues cl_cursor) convs"
    and "\<not> list_all (continues ul_cursor) usrs"
  shows "load U C k infos convs usrs st \<noteq> None"
proof -
  have c: "\<And>s. (load_channels C k None convs s = None) = False"
    using load_channels_progress [OF assms(2)] by simp
  have u: "\<And>s. (load_users U k None usrs s = None) = False"
    using load_users_progress [OF assms(3)] by simp
  from assms(1) show ?thesis
    unfolding load_def Let_def
    by (simp add: c u split: option.splits sum.splits list.splits outcome.splits result.splits)
qed

lemma load_drains:
  assumes ld: "load U C k infos convs usrs st = Some (Returns st')"
    and tk: "teams st k = Some this"
    and infos: "infos = Resolved (Some ret) # later" and team: "ti_team ret = Some team"
    and nofake: "\<not> truthy (t_fakeId (Team_patch st this team))"
  shows "pages_read cl_cursor convs \<noteq> []
     \<and> \<not> truthy (cl_cursor (last (pages_read cl_cursor convs)))
     \<and> filter is_conversations_list (requests st')
         = filter is_conversations_list (requests st)
           @ map (Req_conversations_list (td_id team))
               (None # map cl_cursor (butlast (pages_read cl_cursor convs)))
     \<and> pages_read ul_cursor usrs \<noteq> []
     \<and> \<not> truthy (ul_cursor (last (pages_read ul_cursor usrs)))
     \<and> filter is_users_list (requests st')
         = filter is_users_list (requests st)
           @ map (Req_users_list (td_id team))
               (None # map ul_cursor (butlast (pages_read ul_cursor usrs)))
     \<and> thrown (addChannels C k (cl_items (pages_read cl_cursor convs))
          (st\<lparr>teams := (teams st)(k \<mapsto> Team_patch st this team)\<rparr>)) = None
     \<and> thrown (addUsers U (ul_items (pages_read ul_cursor usrs))
          (state_of (addChannels C k (cl_items (pages_read cl_cursor convs))
             (st\<lparr>teams := (teams st)(k \<mapsto> Team_patch st this team)\<rparr>)))) = None
     \<and> same_store st'
          (set_loaded k (state_of (addUsers U (ul_items (pages_read ul_cursor usrs))
             (state_of (addChannels C k (cl_items (pages_read cl_cursor convs))
                (st\<lparr>teams := (teams st)(k \<mapsto> Team_patch st this team)\<rparr>))))))"
proof -
  let ?p = "st\<lparr>teams := (teams st)(k \<mapsto> Team_patch st this team)\<rparr>"
  let ?cs = "cl_items (pages_read cl_cursor convs)"
  let ?us = "ul_items (pages_read ul_cursor usrs)"
  from load_Returns [OF ld tk] infos team nofake
  obtain st2 st3 st4 where st2: "same_store st2 ?p"
    and q2: "filter is_conversations_list (requests st2) = filter is_conversations_list (requests st)"
      "filter is_users_list (requests st2) = filter is_users_list (requests st)"
    and lc: "load_channels C k None convs st2 = Some (Returns st3)"
    and lu: "load_users U k None usrs st3 = Some (Returns st4)"
    and st': "st' = set_loaded k st4"
    by auto
  from st2 have t2: "teams st2 k = Some (Team_patch st this team)"
    by (simp add: same_store_def)
  note c = load_channels_drains [OF lc t2, unfolded t_id_Team_patch]
  from addChannels_frame [OF st2, of C k ?cs] c
  have ca: "thrown (addChannels C k ?cs ?p) = None"
    "same_store st3 (state_of (addChannels C k ?cs ?p))"
    by (auto intro: same_store_trans)
  have "map_option t_id (teams st3 k) = Some (td_id team)"
    using ca(2) addChannels_keeps_ids [of C k ?cs ?p k]
    by (simp add: same_store_def t_id_Team_patch)
  then obtain this3 where t3: "teams st3 k = Some this3" "t_id this3 = td_id team"
    by auto
  note u = load_users_drains [OF lu t3(1), unfolded t3(2)]
  from addUsers_frame [OF ca(2), of U ?us] u
  have ua: "thrown (addUsers U ?us (state_of (addChannels C k ?cs ?p))) = None"
    "same_store st4 (state_of (addUsers U ?us (state_of (addChannels C k ?cs ?p))))"
    by (auto intro: same_store_trans)
  from c u q2 st' ca ua same_store_set_loaded [OF ua(2), of k]
  show ?thesis
    by (simp add: requests_set_loaded)
qed

lemma load_placeholder:
  assumes ld: "load U C k infos convs usrs st = Some (Returns st')"
    and tk: "teams st k = Some this"
    and infos: "infos = Resolved (Some ret) # later" and team: "ti_team ret = Some team"
    and fake: "truthy (t_fakeId (Team_patch st this team))"
  shows "filter is_conversations_list (requests st') = filter is_conversations_list (requests st)
     \<and> filter is_users_list (requests st') = filter is_users_list (requests st)
     \<and> same_store st' (set_loaded k (st\<lparr>teams := (teams st)(k \<mapsto> Team_patch st this team)\<rparr>))"
proof -
  from load_Returns [OF ld tk] infos team fake
  obtain st2 where "same_store st2 (st\<lparr>teams := (teams st)(k \<mapsto> Team_patch st this team)\<rparr>)"
    "filter is_conversations_list (requests st2) = filter is_conversations_list (requests st)"
    "filter is_users_list (requests st2) = filter is_users_list (requests st)"
    "st' = set_loaded k st2"
    by auto
  then show ?thesis
    using same_store_set_loaded [of st2 _ k] by (simp add: requests_set_loaded)
qed

text \<open>
  C8 (as amended). \<open>load\<close> returns (or throws) as soon as each list has delivered a page
  that does not continue. When it returns normally and the team has no placeholder id
  left after the patch from \<open>team.info\<close>: for the channel list and for the user list, the
  pages read end with the first page whose cursor is empty; one request was issued for
  each page read, the first without cursor and each further one with the cursor of the
  page before; and the store is the one obtained by calling \<open>addChannel\<close> on every
  channel of every page read, then \<open>addUser\<close> on every member of every page read, in order,
  none of which threw, and then clearing \<open>partial\<close>. When the team still has a placeholder
  id after the patch, \<open>load\<close> clears \<open>partial\<close> and returns without any list request.
\<close>

theorem load_drains_pagination:
  "(infos \<noteq> [] \<and> \<not> list_all (continues cl_cursor) convs
      \<and> \<not> list_all (continues ul_cursor) usrs \<longrightarrow>
      load U C k infos convs usrs st \<noteq> None)
   \<and> (load U C k infos convs usrs st = Some (Returns st') \<and> teams st k = Some this
      \<and> infos = Resolved (Some ret) # later \<and> ti_team ret = Some team
      \<and> \<not> truthy (t_fakeId (Team_patch st this team)) \<longrightarrow>
      pages_read cl_cursor convs \<noteq> []
      \<and> \<not> truthy (cl_cursor (last (pages_read cl_cursor convs)))
      \<and> filter is_conversations_list (requests st')
          = filter is_conversations_list (requests st)
            @ map (Req_conversations_list (td_id team))
                (None # map cl_cursor (butlast (pages_read cl_cursor convs)))
      \<and> pages_read ul_cursor usrs \<noteq> []
      \<and> \<not> truthy (ul_cursor (last (pages_read ul_cursor usrs)))
      \<and> filter is_users_list (requests st')
          = filter is_users_list (requests st)
            @ map (Req_users_list (td_id team))
                (None # map ul_cursor (butlast (pages_read ul_cursor usrs)))
      \<and> thrown (addChannels C k (cl_items (pages_read cl_cursor convs))
           (st\<lparr>teams := (teams st)(k \<mapsto> Team_patch st this team)\<rparr>)) = None
      \<and> thrown (addUsers U (ul_items (pages_read ul_cursor usrs))
           (state_of (addChannels C k (cl_items (pages_read cl_cursor convs))
              (st\<lparr>teams := (teams st)(k \<mapsto> Team_patch st this team)\<rparr>)))) = None
      \<and> same_store st'
           (set_loaded k (state_of (addUsers U (ul_items (pages_read ul_cursor usrs))
              (state_of (addChannels C k (cl_items (pages_read cl_cursor convs))
                 (st\<lparr>teams := (teams st)(k \<mapsto> Team_patch st this team)\<rparr>)))))))
   \<and> (load U C k infos convs usrs st = Some (Returns st') \<and> teams st k = Some this
      \<and> infos = Resolved (Some ret) # later \<and> ti_team ret = Some team
      \<and> truthy (t_fakeId (Team_patch st this team)) \<longrightarrow>
      filter is_conversations_list (requests st') = filter is_conversations_list (requests st)
      \<and> filter is_users_list (requests st') = filter is_users_list (requests st)
      \<and> same_store st'
           (set_loaded k (st\<lparr>teams := (teams st)(k \<mapsto> Team_patch st this team)\<rparr>)))"
  using load_progress [of infos convs usrs U C k st]
    load_drains [of U C k infos convs usrs st st' this ret later team]
    load_placeholder [of U C k infos convs usrs st st' this ret later team]
  by blast

lemma example_load:
  "load simple_users simple_channels ''T1'' example_infos example_convs example_usrs
     client_starting = Some (Returns example_loaded)"
  by (simp add: example_loaded_def example_infos_def example_convs_def example_usrs_def
      conversations_page_def client_starting_def client1_def client0_def team1_def Team_fields_def
      payload_acme_def user_alice_def load_def web_def request_def Team_patch_def truthy_def
      set_loaded_def cursor_of_def addChannel_def addUser_def channel_teamId_def js_or_def
      simple_users_def simple_channels_def Let_def)


lemma example_placeholder_load:
  "load simple_users simple_channels ''T1'' example_infos example_convs example_usrs
     client_placeholder = Some (Returns example_placeholder_loaded)"
  by (simp add: example_placeholder_loaded_def example_infos_def example_convs_def
      example_usrs_def conversations_page_def client_placeholder_def client0_def team1_def
      Team_fields_def payload_acme_def load_def web_def request_def Team_patch_def truthy_def
      set_loaded_def Let_def)

text \<open>
  The example of the specification: with the cursors \<open>a\<close>, \<open>b\<close> and the empty cursor,
  \<open>load\<close> returns after exactly three \<open>conversations.list\<close> requests, and the channels of
  all three pages are in the store.
\<close>

theorem load_drains_pagination_witness:
  "example_infos \<noteq> [] \<and> \<not> list_all (continues cl_cursor) example_convs
   \<and> \<not> list_all (continues ul_cursor) example_usrs
   \<and> load simple_users simple_channels ''T1'' example_infos example_convs example_usrs
        client_starting = Some (Returns example_loaded)
   \<and> teams client_starting ''T1'' = Some team1
   \<and> \<not> truthy (t_fakeId (Team_patch client_starting team1 payload_acme))
   \<and> length (pages_read cl_cursor example_convs) = 3
   \<and> filter is_conversations_list (requests example_loaded)
       = [Req_conversations_list ''T1'' None, Req_conversations_list ''T1'' (Some ''a''),
          Req_conversations_list ''T1'' (Some ''b'')]
   \<and> filter is_users_list (requests example_loaded) = [Req_users_list ''T1'' None]
   \<and> getChannel example_loaded ''C1'' ''T1'' = Some \<lparr>sc_id = ''C1'', sc_name = None\<rparr>
   \<and> getChannel example_loaded ''C2'' ''T1'' = Some \<lparr>sc_id = ''C2'', sc_name = None\<rparr>
   \<and> getChannel example_loaded ''C3'' ''T1'' = Some \<lparr>sc_id = ''C3'', sc_name = None\<rparr>
   \<and> getUser example_loaded (Some ''U1'') ''T1'' = Some (User_new simple_users user_alice)
   \<and> emitted example_loaded = []
   \<and> load simple_users simple_channels ''T1'' example_infos example_convs example_usrs
        client_placeholder = Some (Returns example_placeholder_loaded)
   \<and> teams client_placeholder ''T1'' = Some (team1\<lparr>t_fakeId := Some ''T0''\<rparr>)
   \<and> truthy (t_fakeId (Team_patch client_placeholder (team1\<lparr>t_fakeId := Some ''T0''\<rparr>)
        payload_acme))
   \<and> filter is_conversations_list (requests example_placeholder_loaded) = []
   \<and> filter is_users_list (requests example_placeholder_loaded) = []"
  using load_drains_pagination [where U = simple_users and C = simple_channels and k = "''T1''"
      and infos = example_infos and convs = example_convs and usrs = example_usrs
      and st = client_starting and st' = example_loaded and this = team1
      and ret = "\<lparr>ti_ok = True, ti_team = Some payload_acme\<rparr>" and later = "[]"
      and team = payload_acme]
    load_drains_pagination [where U = simple_users and C = simple_channels and k = "''T1''"
      and infos = example_infos and convs = example_convs and usrs = example_usrs
      and st = client_placeholder and st' = example_placeholder_loaded
      and this = "team1\<lparr>t_fakeId := Some ''T0''\<rparr>"
      and ret = "\<lparr>ti_ok = True, ti_team = Some payload_acme\<rparr>" and later = "[]"
      and team = payload_acme]
    example_load example_placeholder_load
  by (simp add: example_loaded_def example_placeholder_loaded_def example_infos_def
      example_convs_def example_usrs_def
      conversations_page_def client_starting_def client_placeholder_def client1_def client0_def
      team1_def Team_fields_def
      payload_acme_def user_alice_def load_def web_def request_def Team_patch_def truthy_def
      set_loaded_def cursor_of_def addChannel_def addUser_def channel_teamId_def js_or_def
      simple_users_def simple_channels_def Let_def cl_cursor_def ul_cursor_def getChannel_def
      getUser_def)

text \<open>
  C8 as stated fails: for a team that keeps its placeholder id, \<open>load\<close> returns after the
  \<open>team.info\<close> request alone; no list request is issued, although the channel list has
  three pages to deliver, and no channel is stored.
\<close>

theorem load_placeholder_counterexample:
  "load simple_users simple_channels ''T1'' example_infos example_convs example_usrs
     client_placeholder = Some (Returns example_placeholder_loaded)
   \<and> pages_read cl_cursor example_convs \<noteq> []
   \<and> requests example_placeholder_loaded = [Req_team_info ''T0'' ''T1'']
   \<and> getChannel example_placeholder_loaded ''C1'' ''T1'' = None
   \<and> map_option t_partial (teams example_placeholder_loaded ''T1'') = Some False"
  using example_placeholder_load
  by (simp add: example_placeholder_loaded_def example_infos_def example_convs_def
      example_usrs_def conversations_page_def client_placeholder_def client0_def team1_def
      Team_fields_def payload_acme_def load_def web_def request_def Team_patch_def truthy_def
      set_loaded_def Let_def getChannel_def cl_cursor_def cursor_of_def)

end
